theory Spec2Isabelle
  imports Complex_Main "HOL-Library.AList" "HOL-Library.Finite_Map"
begin

section \<open>Queue keys\<close>

text \<open>
  Go strings are byte sequences; they are modelled as \<open>string\<close> (a list of \<open>char\<close>).
  \<open>k8stypes.NamespacedName\<close> is a struct of two strings.
\<close>

record NamespacedName =
  Namespace :: string
  Name :: string

text \<open>
  The errors the controller builds itself; \<open>NotFoundError\<close> and \<open>ExternalError\<close> for an error
  handed back by a collaborator (the resource store, the decision engine, a helper of another
  file), the first being the one \<open>apierrors.IsNotFound\<close> recognises. \<open>Panic\<close> is a Go run-time
  panic.
\<close>

datatype error =
    ImproperlyFormattedKey string
  | PipelineNotOwned string
  | ErrorGettingPipeline error
  | ErrorGettingPipelineForStatus error
  | FailedToParsePipelineStatus error
  | FailedToUnmarshalPipelineSpec error
  | NotFoundError string
  | ExternalError string
  | Panic string

text \<open>
  \<open>strings.Index(key, "/")\<close>: the index of the first occurrence of the one-byte separator,
  or \<open>-1\<close> when there is none.
\<close>

fun strings_Index :: "string \<Rightarrow> char \<Rightarrow> int" where
  "strings_Index [] c = - 1"
| "strings_Index (x # xs) c =
     (if x = c then 0
      else (let i = strings_Index xs c in if i < 0 then - 1 else i + 1))"

definition keyToNamespacedName :: "string \<Rightarrow> error + NamespacedName" where
  "keyToNamespacedName key =
     (let index = strings_Index key (CHR ''/'') in
      if index < 0 then Inl (ImproperlyFormattedKey key)
      else Inr \<lparr>Namespace = take (nat index) key, Name = drop (nat (index + 1)) key\<rparr>)"

definition namespacedNameToKey :: "NamespacedName \<Rightarrow> string" where
  "namespacedNameToKey namespacedName =
     Namespace namespacedName @ ''/'' @ Name namespacedName"

section \<open>The queue worker\<close>

text \<open>
  \<open>ctrl.Result\<close>; \<open>time.Duration\<close> is a number of nanoseconds (an \<open>int64\<close>; no arithmetic is
  done on it here, so it is read as an integer).
\<close>

type_synonym Duration = int

record Result =
  Requeue :: bool
  RequeueAfter :: Duration

definition time_Second :: Duration where
  "time_Second = 1000000000"

text \<open>The calls a worker makes on the rate-limited work queue.\<close>

datatype queue_call =
    Queue_Add string
  | Queue_AddRateLimited string
  | Queue_AddAfter string Duration

text \<open>\<open>enqueuePipeline\<close>: the key of the identity is added to the queue.\<close>

definition enqueuePipeline :: "NamespacedName \<Rightarrow> queue_call list" where
  "enqueuePipeline namespacedName = [Queue_Add (namespacedNameToKey namespacedName)]"

text \<open>
  \<open>processQueueKey\<close>. The reconciler's \<open>processPipelineRollout\<close> is a parameter: it takes the
  identity and the state of the world and returns the result, the error (\<open>None\<close> for \<open>nil\<close>)
  and the new state. \<open>numaLogger.Fatal\<close> ends the process: the value \<open>Inl\<close>. The function
  returns the calls it made on the queue, in order. Logging is left out.
\<close>

definition processQueueKey ::
  "(NamespacedName \<Rightarrow> 's \<Rightarrow> (Result \<times> error option) \<times> 's) \<Rightarrow> string \<Rightarrow> 's
     \<Rightarrow> (error + queue_call list) \<times> 's" where
  "processQueueKey processPipelineRollout key s =
     (case keyToNamespacedName key of
        Inl err \<Rightarrow> (Inl err, s)
      | Inr namespacedName \<Rightarrow>
          (case processPipelineRollout namespacedName s of
             ((result, err), s') \<Rightarrow>
               (Inr (if err \<noteq> None then [Queue_AddRateLimited key]
                     else if Requeue result then [Queue_AddRateLimited key]
                     else if RequeueAfter result > 0 then [Queue_AddAfter key (RequeueAfter result)]
                     else []),
                s')))"

section \<open>The worker pool and its wait-group\<close>

definition numWorkers :: int where
  "numWorkers = 16"

text \<open>
  The part of the reconciler that the worker pool touches: the counter of
  \<open>shutdownWorkerWaitGroup\<close> and the number of worker goroutines started and not yet returned.
\<close>

record pool =
  shutdownWorkerWaitGroup :: int
  workers :: nat

text \<open>
  \<open>runWorkers\<close>: the loop \<open>for i := 0; i < numWorkers; i++\<close>, whose body adds to the wait-group
  and starts one worker.
\<close>

function runWorkers_loop :: "int \<Rightarrow> pool \<Rightarrow> pool" where
  "runWorkers_loop i r =
     (if i < numWorkers
      then runWorkers_loop (i + 1)
             (r\<lparr>shutdownWorkerWaitGroup := shutdownWorkerWaitGroup r + numWorkers,
                workers := Suc (workers r)\<rparr>)
      else r)"
  by pat_completeness auto
termination
  by (relation "measure (\<lambda>(i, r). nat (numWorkers - i))") auto

definition runWorkers :: "pool \<Rightarrow> pool" where
  "runWorkers r = runWorkers_loop 0 r"

text \<open>
  \<open>runWorker\<close>, for one worker that finds the keys \<open>keys\<close> in the queue before the queue reports
  that it is shut down: every key is processed and marked done; on \<open>quit\<close> the worker signals
  \<open>Done\<close> on the wait-group once and returns. \<open>process\<close> stands for \<open>processQueueKey\<close>.
\<close>

fun runWorker :: "(string \<Rightarrow> pool \<Rightarrow> pool) \<Rightarrow> string list \<Rightarrow> pool \<Rightarrow> pool" where
  "runWorker process [] r =
     r\<lparr>shutdownWorkerWaitGroup := shutdownWorkerWaitGroup r - 1, workers := workers r - 1\<rparr>"
| "runWorker process (key # keys) r = runWorker process keys (process key r)"

text \<open>
  \<open>Shutdown\<close> shuts the queue down and waits on the wait-group. After the shutdown every started
  worker reaches \<open>quit\<close>; with no key left in the queue that is \<open>runWorker process []\<close>, once per
  worker. \<open>WaitGroup.Wait\<close> returns when the counter is zero.
\<close>

fun workers_quit :: "nat \<Rightarrow> pool \<Rightarrow> pool" where
  "workers_quit 0 r = r"
| "workers_quit (Suc n) r = workers_quit n (runWorker (\<lambda>key r. r) [] r)"

definition Wait_returns :: "pool \<Rightarrow> bool" where
  "Wait_returns r = (shutdownWorkerWaitGroup r = 0)"

definition Shutdown_returns :: "pool \<Rightarrow> bool" where
  "Shutdown_returns r = Wait_returns (workers_quit (workers r) r)"

section \<open>Projection of the child's status\<close>

text \<open>
  \<open>numaflowv1.PipelinePhase\<close> is a string type of the numaflow library; the controller compares
  it with the library's constants only. The constants it names, and \<open>Running\<close>, are the values
  of the datatype.
\<close>

datatype PipelinePhase =
    PipelinePhaseUnknown
  | PipelinePhaseRunning
  | PipelinePhaseFailed
  | PipelinePhasePausing
  | PipelinePhasePaused
  | PipelinePhaseDeleting

text \<open>\<open>metav1.Condition\<close>, with the fields the controller reads.\<close>

record Condition =
  cond_Type :: string
  cond_Status :: string
  cond_Reason :: string

text \<open>\<open>kubernetes.GenericStatus\<close>, as \<open>kubernetes.ParseStatus\<close> decodes it.\<close>

record GenericStatus =
  gs_Phase :: PipelinePhase
  gs_ObservedGeneration :: int
  gs_Conditions :: "Condition list"

text \<open>
  The methods of the rollout's status that the controller calls live in the API package; a call
  is recorded with its arguments. The reason and the message of \<open>MarkPipelinePausingOrPaused\<close>
  are formatted from the phase, which stands for both.
\<close>

datatype status_call =
    Init int
  | MarkPending
  | MarkDeployed int
  | MarkFailed error
  | MarkChildResourcesUnhealthy string string int
  | MarkChildResourcesHealthUnknown string string int
  | MarkChildResourcesHealthy int
  | MarkPipelinePausingOrPaused PipelinePhase int
  | MarkPipelineUnpaused int

definition pipelineObservedGenerationCurrent :: "int \<Rightarrow> int \<Rightarrow> bool" where
  "pipelineObservedGenerationCurrent generation observedGeneration =
     (generation \<le> observedGeneration)"

text \<open>
  \<open>getPipelineChildResourceHealth\<close>: the loop over the conditions returns at the first condition
  of one of the three types whose status is not \<open>"True"\<close>.
\<close>

fun getPipelineChildResourceHealth :: "Condition list \<Rightarrow> string \<times> string" where
  "getPipelineChildResourceHealth [] = (''True'', [])"
| "getPipelineChildResourceHealth (cond # conditions) =
     (if cond_Type cond = ''VerticesHealthy'' \<or> cond_Type cond = ''SideInputsManagersHealthy''
         \<or> cond_Type cond = ''DaemonServiceHealthy''
      then (if cond_Status cond \<noteq> ''True'' then (cond_Status cond, cond_Reason cond)
            else getPipelineChildResourceHealth conditions)
      else getPipelineChildResourceHealth conditions)"

text \<open>
  \<open>setChildResourcesHealthCondition\<close>: the arguments are the rollout's generation, the child's
  generation and the child's parsed status; the value is the one call made on the rollout's
  status.
\<close>

definition setChildResourcesHealthCondition :: "int \<Rightarrow> int \<Rightarrow> GenericStatus \<Rightarrow> status_call" where
  "setChildResourcesHealthCondition rolloutGeneration pipelineGeneration pipelineStatus =
     (let pipelinePhase = gs_Phase pipelineStatus;
          (pipelineChildResourceStatus, pipelineChildResourceReason) =
             getPipelineChildResourceHealth (gs_Conditions pipelineStatus)
      in
      if pipelineChildResourceReason = ''Progressing''
         \<or> \<not> pipelineObservedGenerationCurrent pipelineGeneration
               (gs_ObservedGeneration pipelineStatus)
      then MarkChildResourcesUnhealthy ''Progressing'' ''Pipeline Progressing'' rolloutGeneration
      else if pipelinePhase = PipelinePhaseFailed
      then MarkChildResourcesUnhealthy ''PipelineFailed'' ''Pipeline Phase=Failed'' rolloutGeneration
      else if pipelineChildResourceStatus = ''False''
      then MarkChildResourcesUnhealthy ''PipelineFailed''
             ''Pipeline Failed, Pipeline Child Resource(s) Unhealthy'' rolloutGeneration
      else if pipelinePhase = PipelinePhasePaused \<or> pipelinePhase = PipelinePhasePausing
      then MarkChildResourcesHealthUnknown ''PipelineUnknown''
             ''Pipeline Pausing - health unknown'' rolloutGeneration
      else if pipelinePhase = PipelinePhaseDeleting
      then MarkChildResourcesUnhealthy ''PipelineDeleting'' ''Pipeline Deleting'' rolloutGeneration
      else if pipelinePhase = PipelinePhaseUnknown \<or> pipelineChildResourceStatus = ''Unknown''
      then MarkChildResourcesHealthUnknown ''PipelineUnknown'' ''Pipeline Phase Unknown''
             rolloutGeneration
      else MarkChildResourcesHealthy rolloutGeneration)"

text \<open>
  The subcomponent conditions the specification speaks of, in its own words: a condition of
  one of the three types, and the conditions of a list that are of such a type and not true.
\<close>

definition subcomponent :: "Condition \<Rightarrow> bool" where
  "subcomponent c =
     (cond_Type c = ''VerticesHealthy'' \<or> cond_Type c = ''SideInputsManagersHealthy''
      \<or> cond_Type c = ''DaemonServiceHealthy'')"

definition nontrue_subcomponents :: "Condition list \<Rightarrow> Condition list" where
  "nontrue_subcomponents conditions =
     filter (\<lambda>c. subcomponent c \<and> cond_Status c \<noteq> ''True'') conditions"

subsection \<open>Pause timing\<close>

text \<open>
  An instant (\<open>metav1.Time\<close>, \<open>time.Time\<close>) is an integer on a time line; \<open>t.After(u)\<close> is
  \<open>u < t\<close>. The package variable \<open>initTime\<close> is declared and never assigned in the file: it is
  Go's zero time, the origin of the line.
\<close>

type_synonym Time = int

definition initTime :: Time where
  "initTime = 0"

record PauseStatus =
  LastPauseBeginTime :: Time
  LastPauseEndTime :: Time

text \<open>
  \<open>setChildResourcesPauseCondition\<close>: \<open>now\<close> is what \<open>time.Now()\<close> returns in the call. The value
  is the new pause status and the call made on the rollout's status. The pause metric is left
  out.
\<close>

definition setChildResourcesPauseCondition ::
  "Time \<Rightarrow> int \<Rightarrow> GenericStatus \<Rightarrow> PauseStatus \<Rightarrow> PauseStatus \<times> status_call" where
  "setChildResourcesPauseCondition now rolloutGeneration pipelineStatus pauseStatus =
     (let pipelinePhase = gs_Phase pipelineStatus in
      if pipelinePhase = PipelinePhasePaused \<or> pipelinePhase = PipelinePhasePausing
      then
        (let pauseStatus' =
               (if LastPauseBeginTime pauseStatus = initTime
                   \<or> \<not> (LastPauseEndTime pauseStatus < LastPauseBeginTime pauseStatus)
                then pauseStatus\<lparr>LastPauseBeginTime := now\<rparr>
                else pauseStatus)
         in (pauseStatus', MarkPipelinePausingOrPaused pipelinePhase rolloutGeneration))
      else
        (let pauseStatus' =
               (if LastPauseBeginTime pauseStatus \<noteq> initTime
                   \<and> \<not> (LastPauseBeginTime pauseStatus < LastPauseEndTime pauseStatus)
                then pauseStatus\<lparr>LastPauseEndTime := now\<rparr>
                else pauseStatus)
         in (pauseStatus', MarkPipelineUnpaused rolloutGeneration)))"


section \<open>Child objects\<close>

text \<open>
  A Go \<open>map[string]string\<close> is a list of its entries, each key once, in the order in which a
  \<open>range\<close> loop happens to visit them; the \<open>nil\<close> map is \<open>None\<close>. Reading a key is
  \<open>map_of\<close> on the entries (a \<open>nil\<close> map reads as the empty map), and the assignment
  \<open>m[key] = value\<close> is \<open>AList.update\<close>.
\<close>

type_synonym string_map = "(string \<times> string) list option"

definition entries :: "string_map \<Rightarrow> (string \<times> string) list" where
  "entries m = (case m of None \<Rightarrow> [] | Some kvs \<Rightarrow> kvs)"

definition lookup :: "string_map \<Rightarrow> string \<Rightarrow> string option" where
  "lookup m key = map_of (entries m) key"

text \<open>Each key of the map stands once in its entries.\<close>

definition wellformed_map :: "string_map \<Rightarrow> bool" where
  "wellformed_map m = distinct (map fst (entries m))"

text \<open>\<open>metav1.OwnerReference\<close>, with the fields the controller reads.\<close>

record OwnerReference =
  ref_Kind :: string
  ref_UID :: string

text \<open>
  \<open>kubernetes.GenericObject\<close>: the type and object metadata the controller uses, and the raw
  bytes of the spec and of the status (\<open>runtime.RawExtension\<close>). The fields the controller never
  names are the record's extension.
\<close>

record GenericObject =
  obj_Kind :: string
  obj_APIVersion :: string
  obj_Name :: string
  obj_Namespace :: string
  obj_Generation :: int
  obj_Labels :: string_map
  obj_Annotations :: string_map
  obj_OwnerReferences :: "OwnerReference list"
  obj_Spec :: string
  obj_Status :: string

text \<open>\<open>checkOwnerRef\<close>: the loop returns at the first reference that matches.\<close>

fun checkOwnerRef_range :: "OwnerReference list \<Rightarrow> string \<Rightarrow> bool" where
  "checkOwnerRef_range [] uid = False"
| "checkOwnerRef_range (ref # ownerRefs) uid =
     (if ref_Kind ref = ''PipelineRollout'' \<and> ref_UID ref = uid then True
      else checkOwnerRef_range ownerRefs uid)"

definition checkOwnerRef :: "OwnerReference list \<Rightarrow> string \<Rightarrow> bool" where
  "checkOwnerRef ownerRefs uid =
     (if length ownerRefs = 0 then False else checkOwnerRef_range ownerRefs uid)"

text \<open>
  \<open>merge\<close>. \<open>DeepCopy\<close> gives an equal value that shares nothing with its argument, which for
  values is the argument itself. The two \<open>range\<close> loops assign every entry of the new
  pipeline's map into the result's map. The error returned is always \<open>nil\<close>.
\<close>

definition merge_range :: "(string \<times> string) list \<Rightarrow> (string \<times> string) list \<Rightarrow> (string \<times> string) list" where
  "merge_range new result = fold (\<lambda>(key, value) m. AList.update key value m) new result"

definition merge ::
  "'a GenericObject_scheme \<Rightarrow> 'b GenericObject_scheme \<Rightarrow> error + 'a GenericObject_scheme" where
  "merge existingPipeline newPipeline =
     (let resultPipeline = existingPipeline;
          resultPipeline = resultPipeline\<lparr>obj_Spec := obj_Spec newPipeline\<rparr>;
          resultPipeline =
            (if obj_Labels resultPipeline = None
             then resultPipeline\<lparr>obj_Labels := Some []\<rparr> else resultPipeline);
          resultPipeline = resultPipeline\<lparr>obj_Labels :=
             Some (merge_range (entries (obj_Labels newPipeline))
                     (entries (obj_Labels resultPipeline)))\<rparr>;
          resultPipeline =
            (if obj_Annotations resultPipeline = None
             then resultPipeline\<lparr>obj_Annotations := Some []\<rparr> else resultPipeline);
          resultPipeline = resultPipeline\<lparr>obj_Annotations :=
             Some (merge_range (entries (obj_Annotations newPipeline))
                     (entries (obj_Annotations resultPipeline)))\<rparr>
      in Inr resultPipeline)"

section \<open>Comparison of child specs\<close>

text \<open>
  A decoded JSON document, as \<open>json.Unmarshal\<close> builds it in a \<open>map[string]any\<close>: an object is a
  finite map, a number a \<open>float64\<close> (finite, so a rational). Equality of these values is
  \<open>reflect.DeepEqual\<close> on the decoded documents. The decoded spec itself is \<open>None\<close> for the
  \<open>nil\<close> map, which \<open>json.Unmarshal\<close> leaves when the document is \<open>null\<close>.
\<close>

datatype json =
    JNull
  | JBool bool
  | JNumber rat
  | JString string
  | JArray "json list"
  | JObject "(string, json) fmap"

type_synonym json_map = "(string, json) fmap option"

text \<open>\<open>strings.Split(s, sep)\<close> for a separator of one byte.\<close>

fun strings_Split :: "string \<Rightarrow> char \<Rightarrow> string list" where
  "strings_Split [] sep = [[]]"
| "strings_Split (c # s) sep =
     (if c = sep then [] # strings_Split s sep
      else (case strings_Split s sep of
              [] \<Rightarrow> [[c]]
            | token # tokens \<Rightarrow> (c # token) # tokens))"

text \<open>
  Modelled from the spec: \<open>util.RemovePaths\<close> is not among the sources. The specification has
  the comparison remove a field path from the decoded document (section 4.4: "removing one
  explicitly-excluded field path"; section 9: "path exclusion before equality comparison"): the
  path is split at the separator, followed through the nested objects, and its last key is
  deleted from the object that holds it. A path that leads nowhere removes nothing.
\<close>

fun removePath :: "string list \<Rightarrow> (string, json) fmap \<Rightarrow> (string, json) fmap" where
  "removePath [] m = m"
| "removePath [key] m = fmdrop key m"
| "removePath (key # keys) m =
     (case fmlookup m key of
        Some (JObject child) \<Rightarrow> fmupd key (JObject (removePath keys child)) m
      | _ \<Rightarrow> m)"

definition RemovePaths :: "json_map \<Rightarrow> string list \<Rightarrow> char \<Rightarrow> json_map" where
  "RemovePaths m excludedPaths pathSeparator =
     (case m of
        None \<Rightarrow> None
      | Some doc \<Rightarrow>
          Some (fold (\<lambda>path doc. removePath (strings_Split path pathSeparator) doc)
                  excludedPaths doc))"

text \<open>
  \<open>withoutDesiredPhase\<close>. \<open>json.Unmarshal\<close> is a parameter: from the raw bytes of a spec it
  gives the decoded document or an error.
\<close>

definition withoutDesiredPhase ::
  "(string \<Rightarrow> error + json_map) \<Rightarrow> 'a GenericObject_scheme \<Rightarrow> error + json_map" where
  "withoutDesiredPhase json_Unmarshal obj =
     (case json_Unmarshal (obj_Spec obj) of
        Inl err \<Rightarrow> Inl err
      | Inr specAsMap \<Rightarrow>
          (let specAsMap = RemovePaths specAsMap [''lifecycle.desiredPhase''] (CHR ''.'');
               found_empty =
                 (case specAsMap of
                    None \<Rightarrow> False
                  | Some doc \<Rightarrow>
                      (case fmlookup doc ''lifecycle'' of
                         Some (JObject lifecycleMap) \<Rightarrow> lifecycleMap = fmempty
                       | _ \<Rightarrow> False))
           in Inr (if found_empty then RemovePaths specAsMap [''lifecycle''] (CHR ''.'')
                   else specAsMap)))"

definition childNeedsUpdating ::
  "(string \<Rightarrow> error + json_map) \<Rightarrow> 'a GenericObject_scheme \<Rightarrow> 'b GenericObject_scheme
     \<Rightarrow> error + bool" where
  "childNeedsUpdating json_Unmarshal a b =
     (case withoutDesiredPhase json_Unmarshal a of
        Inl err \<Rightarrow> Inl err
      | Inr pipelineWithoutDesiredPhaseA \<Rightarrow>
          (case withoutDesiredPhase json_Unmarshal b of
             Inl err \<Rightarrow> Inl err
           | Inr pipelineWithoutDesiredPhaseB \<Rightarrow>
               Inr (pipelineWithoutDesiredPhaseA \<noteq> pipelineWithoutDesiredPhaseB)))"

text \<open>
  The exclusion in the words of the specification: the field \<open>desiredPhase\<close> is removed from the
  object at \<open>lifecycle\<close>, and \<open>lifecycle\<close> itself when that leaves it empty.
\<close>

definition spec_exclude_desiredPhase :: "json_map \<Rightarrow> json_map" where
  "spec_exclude_desiredPhase m =
     (case m of
        None \<Rightarrow> None
      | Some doc \<Rightarrow>
          (case fmlookup doc ''lifecycle'' of
             Some (JObject lifecycle) \<Rightarrow>
               (if fmdrop ''desiredPhase'' lifecycle = fmempty
                then Some (fmdrop ''lifecycle'' doc)
                else Some (fmupd ''lifecycle'' (JObject (fmdrop ''desiredPhase'' lifecycle)) doc))
           | _ \<Rightarrow> Some doc))"

text \<open>A spec document with the desired phase set to a value, in an existing or new lifecycle.\<close>

definition with_desiredPhase :: "json \<Rightarrow> (string, json) fmap \<Rightarrow> (string, json) fmap" where
  "with_desiredPhase phase doc =
     (case fmlookup doc ''lifecycle'' of
        Some (JObject lifecycle) \<Rightarrow>
          fmupd ''lifecycle'' (JObject (fmupd ''desiredPhase'' phase lifecycle)) doc
      | _ \<Rightarrow> fmupd ''lifecycle'' (JObject (fmupd ''desiredPhase'' phase fmempty)) doc)"

section \<open>The rollout and its collaborators\<close>

text \<open>
  \<open>apiv1.UpgradeStrategy\<close> with the constants the controller names, and the operator's preferred
  strategy of package \<open>config\<close> (\<open>NoStrategyID\<close> for a preference that is neither of the two the
  controller tests for).
\<close>

datatype UpgradeStrategy =
    UpgradeStrategyNoOp
  | UpgradeStrategyApply
  | UpgradeStrategyPPND
  | UpgradeStrategyProgressive

datatype USDEUserStrategy =
    PPNDStrategyID
  | ProgressiveStrategyID
  | NoStrategyID

text \<open>
  The status of a rollout: the calls made on its methods so far (oldest first), which stand for
  the phase and the conditions they set; the strategy in progress (\<open>None\<close> for the empty
  string); the pause timestamps.
\<close>

record PipelineRolloutStatus =
  st_calls :: "status_call list"
  st_UpgradeInProgress :: "UpgradeStrategy option"
  st_PauseStatus :: PauseStatus

text \<open>
  \<open>apiv1.PipelineRollout\<close>: object metadata, the pipeline declared in the spec (its metadata and
  the raw bytes of its spec) and the status. A \<open>nil\<close> deletion timestamp is \<open>None\<close>; a timestamp
  that is set is never the zero time.
\<close>

record PipelineRollout =
  ro_Namespace :: string
  ro_Name :: string
  ro_UID :: string
  ro_Generation :: int
  ro_DeletionTimestamp :: "Time option"
  ro_Finalizers :: "string list"
  ro_PipelineLabels :: string_map
  ro_PipelineAnnotations :: string_map
  ro_PipelineSpec :: string
  ro_Status :: PipelineRolloutStatus

text \<open>The fields of the pipeline spec that the controller decodes (\<open>PipelineSpec\<close>, \<open>Lifecycle\<close>).\<close>

record PipelineSpec =
  InterStepBufferServiceName :: string
  Lifecycle_DesiredPhase :: string

definition getISBSvcName :: "PipelineSpec \<Rightarrow> string" where
  "getISBSvcName pipeline =
     (if InterStepBufferServiceName pipeline = [] then ''default''
      else InterStepBufferServiceName pipeline)"

text \<open>
  Every call that leaves the controller is recorded, in order: on the resource store, on the
  decision engine, on the helpers of the other files of the package, on the event recorder and
  on the in-progress strategy manager. Metrics and logging are left out.
\<close>

datatype call =
    Call_Get NamespacedName
  | Call_Update PipelineRollout
  | Call_Status_Update PipelineRollout
  | Call_getChildName string
  | Call_GetResource string string
  | Call_CreateResource GenericObject
  | Call_UpdateResource GenericObject
  | Call_GetLiveResource GenericObject
  | Call_ParseStatus GenericObject
  | Call_GetUserStrategy string
  | Call_ResourceNeedsUpdating GenericObject GenericObject
  | Call_needPPND GenericObject bool
  | Call_processExistingPipelineWithPPND GenericObject GenericObject
  | Call_processResourceWithProgressive GenericObject
  | Call_garbageCollectChildren
  | Call_setStrategy UpgradeStrategy
  | Call_unsetStrategy
  | Call_Eventf string string

text \<open>
  The state outside a rollout object that a reconciliation reads and writes: the calls made so
  far and the in-memory table of the in-progress strategy manager, keyed by namespace and name.
\<close>

record world =
  calls :: "call list"
  inProgressStrategies :: "string \<times> string \<Rightarrow> UpgradeStrategy option"

definition record_call :: "call \<Rightarrow> world \<Rightarrow> world" where
  "record_call c w = w\<lparr>calls := calls w @ [c]\<rparr>"

definition status_method :: "status_call \<Rightarrow> PipelineRollout \<Rightarrow> PipelineRollout" where
  "status_method c pipelineRollout =
     pipelineRollout\<lparr>ro_Status :=
       (ro_Status pipelineRollout)\<lparr>st_calls := st_calls (ro_Status pipelineRollout) @ [c]\<rparr>\<rparr>"

text \<open>
  What the collaborators answer. Each is a function of the arguments of the call; a write of the
  status is also given the number of status writes made before it, so that a second attempt may
  fare differently from the first. An error from the store comes with a \<open>nil\<close> object. The
  constants of the packages \<open>common\<close> and \<open>apiv1\<close> and the finalizer's name are parameters too.
\<close>

record env =
  client_Get :: "NamespacedName \<Rightarrow> error + PipelineRollout"
  client_Update :: "PipelineRollout \<Rightarrow> error + PipelineRollout"
  client_Status_Update :: "nat \<Rightarrow> PipelineRollout \<Rightarrow> error option"
  getChildName :: "PipelineRollout \<Rightarrow> string \<Rightarrow> error + string"
  json_Unmarshal_PipelineSpec :: "string \<Rightarrow> error + PipelineSpec"
  kubernetes_GetResource :: "string \<Rightarrow> string \<Rightarrow> error + GenericObject"
  kubernetes_CreateResource :: "GenericObject \<Rightarrow> error option"
  kubernetes_UpdateResource :: "GenericObject \<Rightarrow> error option"
  kubernetes_GetLiveResource :: "GenericObject \<Rightarrow> error + GenericObject"
  kubernetes_ParseStatus :: "GenericObject \<Rightarrow> error + GenericStatus"
  usde_GetUserStrategy :: "string \<Rightarrow> error + USDEUserStrategy"
  usde_ResourceNeedsUpdating ::
    "GenericObject \<Rightarrow> GenericObject \<Rightarrow> error + bool \<times> UpgradeStrategy"
  needPPND :: "PipelineRollout \<Rightarrow> GenericObject \<Rightarrow> bool \<Rightarrow> error + bool option"
  processExistingPipelineWithPPND ::
    "PipelineRollout \<Rightarrow> GenericObject \<Rightarrow> GenericObject \<Rightarrow> error + bool"
  processResourceWithProgressive :: "PipelineRollout \<Rightarrow> GenericObject \<Rightarrow> error + bool"
  garbageCollectChildren :: "PipelineRollout \<Rightarrow> error option"
  time_Now :: Time
  finalizerName :: string
  LabelKeyISBServiceNameForPipeline :: string
  LabelKeyParentRollout :: string
  LabelKeyUpgradeState :: string
  LabelValueUpgradePromoted :: string
  NumaflowPipelineKind :: string
  NumaflowAPIGroup :: string
  NumaflowAPIVersion :: string
  PipelineRolloutKind :: string

fun IsNotFound :: "error \<Rightarrow> bool" where
  "IsNotFound (NotFoundError msg) = True"
| "IsNotFound err = False"

subsection \<open>The in-progress strategy manager\<close>

text \<open>
  The two functions the reconciler's constructor hands to the manager: \<open>getRolloutStrategy\<close>
  reads the status field (\<open>nil\<close> when it is the empty string), \<open>setRolloutStrategy\<close> calls
  \<open>SetUpgradeInProgress\<close>.

  Modelled from the spec: \<open>SetUpgradeInProgress\<close> is a method of the API package, not among the
  sources. Section 6 has the status hold \<open>upgradeInProgress\<close>; the method stores the strategy
  there.
\<close>

definition getRolloutStrategy :: "PipelineRollout \<Rightarrow> UpgradeStrategy option" where
  "getRolloutStrategy pipelineRollout = st_UpgradeInProgress (ro_Status pipelineRollout)"

definition setRolloutStrategy :: "PipelineRollout \<Rightarrow> UpgradeStrategy \<Rightarrow> PipelineRollout" where
  "setRolloutStrategy pipelineRollout strategy =
     pipelineRollout\<lparr>ro_Status :=
       (ro_Status pipelineRollout)\<lparr>st_UpgradeInProgress := Some strategy\<rparr>\<rparr>"

definition rollout_key :: "PipelineRollout \<Rightarrow> string \<times> string" where
  "rollout_key pipelineRollout = (ro_Namespace pipelineRollout, ro_Name pipelineRollout)"

text \<open>
  Modelled from the spec: \<open>inProgressStrategyMgr\<close> with \<open>getStrategy\<close>, \<open>setStrategy\<close> and
  \<open>unsetStrategy\<close> is not among the sources. Section 4.2: the state is one strategy per
  rollout; "Backing store is dual: an in-memory map for fast concurrent reads, synchronized
  with the Rollout's persisted status field so that a freshly-started process reconstructs
  strategy state from the last-written status on first reconcile." So \<open>getStrategy\<close> reads the
  in-memory map and, where the map has no entry, takes the strategy of the status into
  the map; with neither, the strategy is \<open>NoOp\<close>. \<open>setStrategy\<close> writes both, and
  \<open>unsetStrategy\<close> sets \<open>NoOp\<close>.
\<close>

definition getStrategy :: "PipelineRollout \<Rightarrow> world \<Rightarrow> UpgradeStrategy \<times> world" where
  "getStrategy rollout w =
     (case inProgressStrategies w (rollout_key rollout) of
        Some strategy \<Rightarrow> (strategy, w)
      | None \<Rightarrow>
          (case getRolloutStrategy rollout of
             Some strategy \<Rightarrow>
               (strategy,
                w\<lparr>inProgressStrategies :=
                    (inProgressStrategies w)(rollout_key rollout \<mapsto> strategy)\<rparr>)
           | None \<Rightarrow> (UpgradeStrategyNoOp, w)))"

definition store_strategy :: "PipelineRollout \<Rightarrow> UpgradeStrategy \<Rightarrow> world \<Rightarrow> PipelineRollout \<times> world" where
  "store_strategy rollout strategy w =
     (setRolloutStrategy rollout strategy,
      w\<lparr>inProgressStrategies := (inProgressStrategies w)(rollout_key rollout \<mapsto> strategy)\<rparr>)"

definition setStrategy :: "PipelineRollout \<Rightarrow> UpgradeStrategy \<Rightarrow> world \<Rightarrow> PipelineRollout \<times> world" where
  "setStrategy rollout strategy w =
     store_strategy rollout strategy (record_call (Call_setStrategy strategy) w)"

definition unsetStrategy :: "PipelineRollout \<Rightarrow> world \<Rightarrow> PipelineRollout \<times> world" where
  "unsetStrategy rollout w =
     store_strategy rollout UpgradeStrategyNoOp (record_call Call_unsetStrategy w)"

section \<open>Reconciliation\<close>

subsection \<open>The child's definition\<close>

text \<open>
  \<open>getBasePipelineMetadata\<close>: the labels of the rollout's pipeline are copied into a new map, to
  which the two controller labels are added; the annotations are the rollout's own map.
\<close>

definition getBasePipelineMetadata ::
  "env \<Rightarrow> PipelineRollout \<Rightarrow> error + string_map \<times> string_map" where
  "getBasePipelineMetadata env pipelineRollout =
     (let labelMapping = merge_range (entries (ro_PipelineLabels pipelineRollout)) [] in
      case json_Unmarshal_PipelineSpec env (ro_PipelineSpec pipelineRollout) of
        Inl err \<Rightarrow> Inl (FailedToUnmarshalPipelineSpec err)
      | Inr pipelineSpec \<Rightarrow>
          (let labelMapping =
                 AList.update (LabelKeyISBServiceNameForPipeline env) (getISBSvcName pipelineSpec)
                   labelMapping;
               labelMapping =
                 AList.update (LabelKeyParentRollout env) (ro_Name pipelineRollout) labelMapping
           in Inr (Some labelMapping, ro_PipelineAnnotations pipelineRollout)))"

text \<open>
  \<open>makePipelineDefinition\<close>; the owner reference is the one \<open>metav1.NewControllerRef\<close> builds
  from the rollout. The generation and the status of the new object are zero values.
\<close>

definition makePipelineDefinition ::
  "env \<Rightarrow> PipelineRollout \<Rightarrow> string \<Rightarrow> string_map \<times> string_map \<Rightarrow> error + GenericObject" where
  "makePipelineDefinition env pipelineRollout pipelineName metadata =
     Inr \<lparr>obj_Kind = NumaflowPipelineKind env,
          obj_APIVersion = NumaflowAPIGroup env @ ''/'' @ NumaflowAPIVersion env,
          obj_Name = pipelineName,
          obj_Namespace = ro_Namespace pipelineRollout,
          obj_Generation = 0,
          obj_Labels = fst metadata,
          obj_Annotations = snd metadata,
          obj_OwnerReferences =
            [\<lparr>ref_Kind = PipelineRolloutKind env, ref_UID = ro_UID pipelineRollout\<rparr>],
          obj_Spec = ro_PipelineSpec pipelineRollout,
          obj_Status = []\<rparr>"

definition makeRunningPipelineDefinition ::
  "env \<Rightarrow> PipelineRollout \<Rightarrow> world \<Rightarrow> (error + GenericObject) \<times> world" where
  "makeRunningPipelineDefinition env pipelineRollout w =
     (let w = record_call (Call_getChildName (LabelValueUpgradePromoted env)) w in
      case getChildName env pipelineRollout (LabelValueUpgradePromoted env) of
        Inl err \<Rightarrow> (Inl err, w)
      | Inr pipelineName \<Rightarrow>
          (case getBasePipelineMetadata env pipelineRollout of
             Inl err \<Rightarrow> (Inl err, w)
           | Inr (labels, annotations) \<Rightarrow>
               (let labels =
                      Some (AList.update (LabelKeyUpgradeState env) (LabelValueUpgradePromoted env)
                              (entries labels))
                in (makePipelineDefinition env pipelineRollout pipelineName (labels, annotations),
                    w))))"

subsection \<open>An existing child\<close>

text \<open>
  \<open>processExistingPipeline\<close>, lines 489 to 514: with no strategy in progress, is one to be set?
  The value \<open>Inl\<close> is a return from \<open>processExistingPipeline\<close> with that error; \<open>Inr\<close> is the
  strategy in progress afterwards. The second test follows the first in both of its outcomes.
\<close>

definition select_progressive ::
  "USDEUserStrategy \<Rightarrow> UpgradeStrategy \<Rightarrow> UpgradeStrategy \<Rightarrow> PipelineRollout \<Rightarrow> world
     \<Rightarrow> UpgradeStrategy \<times> PipelineRollout \<times> world" where
  "select_progressive userPreferredStrategy upgradeStrategyType inProgressStrategy pipelineRollout w =
     (if userPreferredStrategy = ProgressiveStrategyID
      then (if upgradeStrategyType = UpgradeStrategyProgressive
            then (UpgradeStrategyProgressive,
                  setStrategy pipelineRollout UpgradeStrategyProgressive w)
            else (inProgressStrategy, pipelineRollout, w))
      else (inProgressStrategy, pipelineRollout, w))"

definition select_strategy ::
  "env \<Rightarrow> USDEUserStrategy \<Rightarrow> UpgradeStrategy \<Rightarrow> GenericObject \<Rightarrow> UpgradeStrategy
     \<Rightarrow> PipelineRollout \<Rightarrow> world
     \<Rightarrow> (error option + UpgradeStrategy) \<times> PipelineRollout \<times> world" where
  "select_strategy env userPreferredStrategy upgradeStrategyType newPipelineDef inProgressStrategy
       pipelineRollout w =
     (if userPreferredStrategy = PPNDStrategyID
      then
        (let w = record_call
                   (Call_needPPND newPipelineDef (upgradeStrategyType = UpgradeStrategyPPND)) w
         in
         case needPPND env pipelineRollout newPipelineDef
                (upgradeStrategyType = UpgradeStrategyPPND) of
           Inl err \<Rightarrow> (Inl (Some err), pipelineRollout, w)
         | Inr None \<Rightarrow> (Inl None, pipelineRollout, w)
         | Inr (Some ppndRequired) \<Rightarrow>
             (case (if ppndRequired
                    then (UpgradeStrategyPPND, setStrategy pipelineRollout UpgradeStrategyPPND w)
                    else (inProgressStrategy, pipelineRollout, w)) of
                (inProgressStrategy, pipelineRollout, w) \<Rightarrow>
                  (case select_progressive userPreferredStrategy upgradeStrategyType
                          inProgressStrategy pipelineRollout w of
                     (inProgressStrategy, pipelineRollout, w) \<Rightarrow>
                       (Inr inProgressStrategy, pipelineRollout, w))))
      else
        (case select_progressive userPreferredStrategy upgradeStrategyType inProgressStrategy
                pipelineRollout w of
           (inProgressStrategy, pipelineRollout, w) \<Rightarrow>
             (Inr inProgressStrategy, pipelineRollout, w)))"

text \<open>
  Lines 516 to 531: with a strategy in progress the child is read again from the store and the
  new definition merged into it. When the store does not find the child, the error is logged
  and the object is \<open>nil\<close>; \<open>merge\<close> then assigns to a field of the \<open>nil\<close> copy, which panics.
  \<open>Inl\<close> is a return with that error.
\<close>

definition refresh_existing ::
  "env \<Rightarrow> UpgradeStrategy \<Rightarrow> GenericObject \<Rightarrow> GenericObject \<Rightarrow> world
     \<Rightarrow> (error + GenericObject \<times> GenericObject) \<times> world" where
  "refresh_existing env inProgressStrategy existingPipelineDef newPipelineDef w =
     (if inProgressStrategy \<noteq> UpgradeStrategyNoOp
      then
        (let w = record_call (Call_GetLiveResource newPipelineDef) w in
         case kubernetes_GetLiveResource env newPipelineDef of
           Inl err \<Rightarrow>
             (if IsNotFound err
              then (Inl (Panic ''nil pointer dereference''), w)
              else (Inl (ErrorGettingPipelineForStatus err), w))
         | Inr existingPipelineDef \<Rightarrow>
             (case merge existingPipelineDef newPipelineDef of
                Inl err \<Rightarrow> (Inl err, w)
              | Inr newPipelineDef \<Rightarrow> (Inr (existingPipelineDef, newPipelineDef), w)))
      else (Inr (existingPipelineDef, newPipelineDef), w))"

text \<open>
  Lines 533 to 563: the switch on the strategy in progress. The value is the error returned
  (\<open>Some\<close>: a return from \<open>processExistingPipeline\<close>), the rollout and the world.
\<close>

definition run_strategy ::
  "env \<Rightarrow> UpgradeStrategy \<Rightarrow> bool \<Rightarrow> UpgradeStrategy \<Rightarrow> GenericObject \<Rightarrow> GenericObject
     \<Rightarrow> PipelineRollout \<Rightarrow> world \<Rightarrow> error option \<times> PipelineRollout \<times> world" where
  "run_strategy env inProgressStrategy pipelineNeedsToUpdate upgradeStrategyType
       existingPipelineDef newPipelineDef pipelineRollout w =
     (case inProgressStrategy of
        UpgradeStrategyPPND \<Rightarrow>
          (let w = record_call
                     (Call_processExistingPipelineWithPPND existingPipelineDef newPipelineDef) w
           in
           case processExistingPipelineWithPPND env pipelineRollout existingPipelineDef
                  newPipelineDef of
             Inl err \<Rightarrow> (Some err, pipelineRollout, w)
           | Inr done \<Rightarrow>
               (if done then (None, unsetStrategy pipelineRollout w)
                else (None, pipelineRollout, w)))
      | UpgradeStrategyProgressive \<Rightarrow>
          (if pipelineNeedsToUpdate
           then
             (let w = record_call (Call_processResourceWithProgressive existingPipelineDef) w in
              case processResourceWithProgressive env pipelineRollout existingPipelineDef of
                Inl err \<Rightarrow> (Some err, pipelineRollout, w)
              | Inr done \<Rightarrow>
                  (if done then (None, unsetStrategy pipelineRollout w)
                   else (None, pipelineRollout, w)))
           else (None, pipelineRollout, w))
      | _ \<Rightarrow>
          (if pipelineNeedsToUpdate \<and> upgradeStrategyType = UpgradeStrategyApply
           then
             (let w = record_call (Call_UpdateResource newPipelineDef) w in
              case kubernetes_UpdateResource env newPipelineDef of
                Some err \<Rightarrow> (Some err, pipelineRollout, w)
              | None \<Rightarrow>
                  (None,
                   status_method (MarkDeployed (ro_Generation pipelineRollout)) pipelineRollout,
                   w))
           else (None, pipelineRollout, w)))"

text \<open>\<open>processExistingPipeline\<close>; the value is the error returned, the rollout and the world.\<close>

definition processExistingPipeline ::
  "env \<Rightarrow> PipelineRollout \<Rightarrow> GenericObject \<Rightarrow> GenericObject \<Rightarrow> world
     \<Rightarrow> error option \<times> PipelineRollout \<times> world" where
  "processExistingPipeline env pipelineRollout existingPipelineDef newPipelineDef w =
     (let w = record_call (Call_GetUserStrategy (obj_Namespace newPipelineDef)) w in
      case usde_GetUserStrategy env (obj_Namespace newPipelineDef) of
        Inl err \<Rightarrow> (Some err, pipelineRollout, w)
      | Inr userPreferredStrategy \<Rightarrow>
     (let w = record_call (Call_ResourceNeedsUpdating newPipelineDef existingPipelineDef) w in
      case usde_ResourceNeedsUpdating env newPipelineDef existingPipelineDef of
        Inl err \<Rightarrow> (Some err, pipelineRollout, w)
      | Inr (pipelineNeedsToUpdate, upgradeStrategyType) \<Rightarrow>
     (let pipelineRollout =
            (if pipelineNeedsToUpdate then status_method MarkPending pipelineRollout
             else status_method (MarkDeployed (ro_Generation pipelineRollout)) pipelineRollout)
      in
      case getStrategy pipelineRollout w of
        (inProgressStrategy, w) \<Rightarrow>
     (let inProgressStrategySet = (inProgressStrategy \<noteq> UpgradeStrategyNoOp) in
      case (if \<not> inProgressStrategySet
            then select_strategy env userPreferredStrategy upgradeStrategyType newPipelineDef
                   inProgressStrategy pipelineRollout w
            else (Inr inProgressStrategy, pipelineRollout, w)) of
        (Inl err, pipelineRollout, w) \<Rightarrow> (err, pipelineRollout, w)
      | (Inr inProgressStrategy, pipelineRollout, w) \<Rightarrow>
     (case refresh_existing env inProgressStrategy existingPipelineDef newPipelineDef w of
        (Inl err, w) \<Rightarrow> (Some err, pipelineRollout, w)
      | (Inr (existingPipelineDef, newPipelineDef), w) \<Rightarrow>
     (case run_strategy env inProgressStrategy pipelineNeedsToUpdate upgradeStrategyType
             existingPipelineDef newPipelineDef pipelineRollout w of
        (Some err, pipelineRollout, w) \<Rightarrow> (Some err, pipelineRollout, w)
      | (None, pipelineRollout, w) \<Rightarrow>
     (let w = record_call Call_garbageCollectChildren w in
      case garbageCollectChildren env pipelineRollout of
        Some err \<Rightarrow> (Some err, pipelineRollout, w)
      | None \<Rightarrow> (None, pipelineRollout, w))))))))"

subsection \<open>One reconciliation\<close>

text \<open>\<open>controllerutil\<close>'s functions on the finalizers of an object.\<close>

definition ContainsFinalizer :: "PipelineRollout \<Rightarrow> string \<Rightarrow> bool" where
  "ContainsFinalizer obj finalizer = (finalizer \<in> set (ro_Finalizers obj))"

definition AddFinalizer :: "PipelineRollout \<Rightarrow> string \<Rightarrow> PipelineRollout" where
  "AddFinalizer obj finalizer =
     (if finalizer \<in> set (ro_Finalizers obj) then obj
      else obj\<lparr>ro_Finalizers := ro_Finalizers obj @ [finalizer]\<rparr>)"

definition RemoveFinalizer :: "PipelineRollout \<Rightarrow> string \<Rightarrow> PipelineRollout" where
  "RemoveFinalizer obj finalizer =
     obj\<lparr>ro_Finalizers := filter (\<lambda>f. f \<noteq> finalizer) (ro_Finalizers obj)\<rparr>"

text \<open>
  \<open>reconcile\<close>. The value is the triple the function returns (requeue, the existing child or
  \<open>nil\<close>, the error or \<open>nil\<close>), the rollout as the function leaves it, and the world.
\<close>

definition reconcile ::
  "env \<Rightarrow> PipelineRollout \<Rightarrow> world
     \<Rightarrow> (bool \<times> GenericObject option \<times> error option) \<times> PipelineRollout \<times> world" where
  "reconcile env pipelineRollout w =
     (if ro_DeletionTimestamp pipelineRollout \<noteq> None
      then
        (let pipelineRollout =
               (if ContainsFinalizer pipelineRollout (finalizerName env)
                then RemoveFinalizer pipelineRollout (finalizerName env)
                else pipelineRollout)
         in ((False, None, None), pipelineRollout, w))
      else
     (let pipelineRollout =
            (if \<not> ContainsFinalizer pipelineRollout (finalizerName env)
             then AddFinalizer pipelineRollout (finalizerName env)
             else pipelineRollout)
      in
      case makeRunningPipelineDefinition env pipelineRollout w of
        (Inl err, w) \<Rightarrow> ((False, None, Some err), pipelineRollout, w)
      | (Inr newPipelineDef, w) \<Rightarrow>
     (let w = record_call
                (Call_GetResource (obj_Name newPipelineDef) (obj_Namespace newPipelineDef)) w
      in
      case kubernetes_GetResource env (obj_Name newPipelineDef) (obj_Namespace newPipelineDef) of
        Inl err \<Rightarrow>
          (if IsNotFound err
           then
             (let pipelineRollout = status_method MarkPending pipelineRollout;
                  w = record_call (Call_CreateResource newPipelineDef) w
              in
              case kubernetes_CreateResource env newPipelineDef of
                Some err \<Rightarrow> ((False, None, Some err), pipelineRollout, w)
              | None \<Rightarrow>
                  ((False, None, None),
                   status_method (MarkDeployed (ro_Generation pipelineRollout)) pipelineRollout,
                   w))
           else ((False, None, Some (ErrorGettingPipeline err)), pipelineRollout, w))
      | Inr existingPipelineDef \<Rightarrow>
          (if \<not> checkOwnerRef (obj_OwnerReferences existingPipelineDef) (ro_UID pipelineRollout)
           then ((False, Some existingPipelineDef,
                  Some (PipelineNotOwned (obj_Name existingPipelineDef))),
                 pipelineRollout, w)
           else
             (case merge existingPipelineDef newPipelineDef of
                Inl err \<Rightarrow> ((False, None, Some err), pipelineRollout, w)
              | Inr newPipelineDef \<Rightarrow>
                  (case processExistingPipeline env pipelineRollout existingPipelineDef
                          newPipelineDef w of
                     (err, pipelineRollout, w) \<Rightarrow>
                       ((False, Some existingPipelineDef, err), pipelineRollout, w)))))))"

text \<open>
  \<open>processPipelineStatus\<close>: the child is read from the store only when \<open>reconcile\<close> returned
  none. The value is the error returned, the rollout and the world.
\<close>

definition processPipelineStatus ::
  "env \<Rightarrow> PipelineRollout \<Rightarrow> GenericObject option \<Rightarrow> world
     \<Rightarrow> error option \<times> PipelineRollout \<times> world" where
  "processPipelineStatus env pipelineRollout existingPipelineDef w =
     (case (case existingPipelineDef of
              Some existing \<Rightarrow> (Inr existing, w)
            | None \<Rightarrow>
                (case makeRunningPipelineDefinition env pipelineRollout w of
                   (Inl err, w) \<Rightarrow> (Inl (Some err), w)
                 | (Inr pipelineDef, w) \<Rightarrow>
                     (let w = record_call (Call_GetLiveResource pipelineDef) w in
                      case kubernetes_GetLiveResource env pipelineDef of
                        Inl err \<Rightarrow>
                          (if IsNotFound err then (Inl None, w)
                           else (Inl (Some (ErrorGettingPipelineForStatus err)), w))
                      | Inr livePipelineDef \<Rightarrow> (Inr livePipelineDef, w)))) of
        (Inl err, w) \<Rightarrow> (err, pipelineRollout, w)
      | (Inr existingPipelineDef, w) \<Rightarrow>
          (let w = record_call (Call_ParseStatus existingPipelineDef) w in
           case kubernetes_ParseStatus env existingPipelineDef of
             Inl err \<Rightarrow> (Some (FailedToParsePipelineStatus err), pipelineRollout, w)
           | Inr pipelineStatus \<Rightarrow>
               (let pipelineRollout =
                      status_method
                        (setChildResourcesHealthCondition (ro_Generation pipelineRollout)
                           (obj_Generation existingPipelineDef) pipelineStatus)
                        pipelineRollout;
                    (pauseStatus, pauseCall) =
                      setChildResourcesPauseCondition (time_Now env)
                        (ro_Generation pipelineRollout) pipelineStatus
                        (st_PauseStatus (ro_Status pipelineRollout));
                    pipelineRollout =
                      pipelineRollout\<lparr>ro_Status :=
                        (ro_Status pipelineRollout)\<lparr>st_PauseStatus := pauseStatus\<rparr>\<rparr>;
                    pipelineRollout = status_method pauseCall pipelineRollout
                in (None, pipelineRollout, w))))"

definition needsUpdate :: "PipelineRollout \<Rightarrow> PipelineRollout \<Rightarrow> bool" where
  "needsUpdate old new = (ro_Finalizers old \<noteq> ro_Finalizers new)"

text \<open>
  \<open>ErrorHandler\<close> records a warning event with the reason; \<open>updatePipelineRolloutStatus\<close> writes
  the status once; \<open>updatePipelineRolloutStatusToFailed\<close> marks the status failed and writes
  it once.
\<close>

definition ErrorHandler :: "string \<Rightarrow> world \<Rightarrow> world" where
  "ErrorHandler reason w = record_call (Call_Eventf ''Warning'' reason) w"

definition is_status_write :: "call \<Rightarrow> bool" where
  "is_status_write c = (case c of Call_Status_Update r \<Rightarrow> True | _ \<Rightarrow> False)"

definition status_write_calls :: "world \<Rightarrow> call list" where
  "status_write_calls w = filter is_status_write (calls w)"

definition status_writes :: "world \<Rightarrow> nat" where
  "status_writes w = length (status_write_calls w)"

definition updatePipelineRolloutStatus ::
  "env \<Rightarrow> PipelineRollout \<Rightarrow> world \<Rightarrow> error option \<times> world" where
  "updatePipelineRolloutStatus env pipelineRollout w =
     (client_Status_Update env (status_writes w) pipelineRollout,
      record_call (Call_Status_Update pipelineRollout) w)"

definition updatePipelineRolloutStatusToFailed ::
  "env \<Rightarrow> PipelineRollout \<Rightarrow> error \<Rightarrow> world \<Rightarrow> error option \<times> PipelineRollout \<times> world" where
  "updatePipelineRolloutStatusToFailed env pipelineRollout err w =
     (let pipelineRollout = status_method (MarkFailed err) pipelineRollout in
      case updatePipelineRolloutStatus env pipelineRollout w of
        (statusUpdateErr, w) \<Rightarrow> (statusUpdateErr, pipelineRollout, w))"

text \<open>
  The three places of \<open>processPipelineRollout\<close> that handle an error \<open>err\<close> the same way: the
  error is reported with \<open>reason\<close>, the status is marked failed and written, and the function
  returns the error of that write when it fails, \<open>err\<close> otherwise.
\<close>

definition fail_with ::
  "env \<Rightarrow> string \<Rightarrow> error \<Rightarrow> PipelineRollout \<Rightarrow> world \<Rightarrow> (Result \<times> error option) \<times> world" where
  "fail_with env reason err pipelineRollout w =
     (let w = ErrorHandler reason w in
      case updatePipelineRolloutStatusToFailed env pipelineRollout err w of
        (Some statusUpdateErr, pipelineRollout, w) \<Rightarrow>
          ((\<lparr>Requeue = False, RequeueAfter = 0\<rparr>, Some statusUpdateErr),
           ErrorHandler ''UpdateStatusFailed'' w)
      | (None, pipelineRollout, w) \<Rightarrow> ((\<lparr>Requeue = False, RequeueAfter = 0\<rparr>, Some err), w))"

text \<open>
  \<open>processPipelineRollout\<close>, lines 247 to 266: the status is written unless the rollout is
  being deleted, and the result is built.
\<close>

definition write_status_and_finish ::
  "env \<Rightarrow> bool \<Rightarrow> PipelineRollout \<Rightarrow> world \<Rightarrow> (Result \<times> error option) \<times> world" where
  "write_status_and_finish env requeue pipelineRollout w =
     (case (if ro_DeletionTimestamp pipelineRollout = None
            then updatePipelineRolloutStatus env pipelineRollout w
            else (None, w)) of
        (Some statusUpdateErr, w) \<Rightarrow>
          ((\<lparr>Requeue = False, RequeueAfter = 0\<rparr>, Some statusUpdateErr),
           ErrorHandler ''UpdateStatusFailed'' w)
      | (None, w) \<Rightarrow>
          (if requeue
           then ((\<lparr>Requeue = True, RequeueAfter = 30 * time_Second\<rparr>, None), w)
           else ((\<lparr>Requeue = False, RequeueAfter = 0\<rparr>, None),
                 record_call (Call_Eventf ''Normal'' ''ReconcileSuccess'') w)))"

definition processPipelineRollout ::
  "env \<Rightarrow> NamespacedName \<Rightarrow> world \<Rightarrow> (Result \<times> error option) \<times> world" where
  "processPipelineRollout env namespacedName w =
     (let w = record_call (Call_Get namespacedName) w in
      case client_Get env namespacedName of
        Inl err \<Rightarrow>
          (if IsNotFound err then ((\<lparr>Requeue = False, RequeueAfter = 0\<rparr>, None), w)
           else ((\<lparr>Requeue = False, RequeueAfter = 0\<rparr>, Some err),
                 ErrorHandler ''GetPipelineRolloutFailed'' w))
      | Inr pipelineRolloutOrig \<Rightarrow>
     (let pipelineRollout = pipelineRolloutOrig;
          pipelineRollout = status_method (Init (ro_Generation pipelineRollout)) pipelineRollout
      in
      case reconcile env pipelineRollout w of
        ((requeue, existingPipelineDef, Some err), pipelineRollout, w) \<Rightarrow>
          fail_with env ''ReconcileFailed'' err pipelineRollout w
      | ((requeue, existingPipelineDef, None), pipelineRollout, w) \<Rightarrow>
     (case processPipelineStatus env pipelineRollout existingPipelineDef w of
        (Some err, pipelineRollout, w) \<Rightarrow>
          fail_with env ''ProcessPipelineStatusFailed'' err pipelineRollout w
      | (None, pipelineRollout, w) \<Rightarrow>
     (if needsUpdate pipelineRolloutOrig pipelineRollout
      then
        (let pipelineRolloutStatus = ro_Status pipelineRollout;
             w = record_call (Call_Update pipelineRollout) w
         in
         case client_Update env pipelineRollout of
           Inl err \<Rightarrow> fail_with env ''UpdateFailed'' err pipelineRollout w
         | Inr updated \<Rightarrow>
             write_status_and_finish env requeue
               (updated\<lparr>ro_Status := pipelineRolloutStatus\<rparr>) w)
      else write_status_and_finish env requeue pipelineRollout w))))"

section \<open>Notions used in the statements\<close>

text \<open>
  The calls that can change a child object in the store: creating or updating it directly, and
  the helpers that patch, update, create or delete children (the PPND and progressive steps and
  the garbage collection).
\<close>

definition mutates_child :: "call \<Rightarrow> bool" where
  "mutates_child c =
     (case c of
        Call_CreateResource obj \<Rightarrow> True
      | Call_UpdateResource obj \<Rightarrow> True
      | Call_processExistingPipelineWithPPND existing new \<Rightarrow> True
      | Call_processResourceWithProgressive existing \<Rightarrow> True
      | Call_garbageCollectChildren \<Rightarrow> True
      | _ \<Rightarrow> False)"

text \<open>The calls of the decision logic that picks a new strategy.\<close>

definition picks_strategy :: "call \<Rightarrow> bool" where
  "picks_strategy c =
     (case c of
        Call_needPPND new required \<Rightarrow> True
      | Call_setStrategy strategy \<Rightarrow> True
      | _ \<Rightarrow> False)"

text \<open>The three strategies that may be in progress.\<close>

definition in_progress_value :: "UpgradeStrategy \<Rightarrow> bool" where
  "in_progress_value strategy =
     (strategy = UpgradeStrategyNoOp \<or> strategy = UpgradeStrategyPPND
      \<or> strategy = UpgradeStrategyProgressive)"

text \<open>
  Both stores of the strategy of a rollout, the in-memory table and the status field, hold one
  of the three values or nothing. The strategy observed is what \<open>getStrategy\<close> returns.
\<close>

definition strategy_valid :: "PipelineRollout \<Rightarrow> world \<Rightarrow> bool" where
  "strategy_valid rollout w =
     ((case inProgressStrategies w (rollout_key rollout) of
         None \<Rightarrow> True | Some strategy \<Rightarrow> in_progress_value strategy) \<and>
      (case st_UpgradeInProgress (ro_Status rollout) of
         None \<Rightarrow> True | Some strategy \<Rightarrow> in_progress_value strategy))"

definition observed_strategy :: "PipelineRollout \<Rightarrow> world \<Rightarrow> UpgradeStrategy" where
  "observed_strategy rollout w = fst (getStrategy rollout w)"

text \<open>
  Ownership in the words of the specification: an owner reference with the kind
  \<open>PipelineRollout\<close> and the UID of the rollout.
\<close>

definition owned_by :: "OwnerReference list \<Rightarrow> string \<Rightarrow> bool" where
  "owned_by ownerRefs uid =
     (\<exists>ref \<in> set ownerRefs. ref_Kind ref = ''PipelineRollout'' \<and> ref_UID ref = uid)"


section \<open>Sample values\<close>

text \<open>
  A rollout, a child and a set of answers of the collaborators, on which the statements below
  are exercised: the store holds no child, every write succeeds, the operator prefers PPND and
  nothing needs updating.
\<close>

definition sample_rollout :: PipelineRollout where
  "sample_rollout =
     \<lparr>ro_Namespace = ''default'', ro_Name = ''my-pipeline'', ro_UID = ''uid-1'',
      ro_Generation = 2, ro_DeletionTimestamp = None, ro_Finalizers = [''numaplane''],
      ro_PipelineLabels = None, ro_PipelineAnnotations = None, ro_PipelineSpec = ''spec'',
      ro_Status = \<lparr>st_calls = [], st_UpgradeInProgress = None,
                    st_PauseStatus = \<lparr>LastPauseBeginTime = 0, LastPauseEndTime = 0\<rparr>\<rparr>\<rparr>"

definition sample_child :: "string \<Rightarrow> GenericObject" where
  "sample_child uid =
     \<lparr>obj_Kind = ''Pipeline'', obj_APIVersion = ''numaflow.numaproj.io/v1alpha1'',
      obj_Name = ''my-pipeline-0'', obj_Namespace = ''default'', obj_Generation = 1,
      obj_Labels = None, obj_Annotations = None,
      obj_OwnerReferences = [\<lparr>ref_Kind = ''PipelineRollout'', ref_UID = uid\<rparr>],
      obj_Spec = ''spec'', obj_Status = ''status''\<rparr>"

definition sample_env :: env where
  "sample_env =
     \<lparr>client_Get = (\<lambda>namespacedName. Inr sample_rollout),
      client_Update = (\<lambda>rollout. Inr rollout),
      client_Status_Update = (\<lambda>attempt rollout. None),
      getChildName = (\<lambda>rollout state. Inr ''my-pipeline-0''),
      json_Unmarshal_PipelineSpec =
        (\<lambda>raw. Inr \<lparr>InterStepBufferServiceName = [], Lifecycle_DesiredPhase = []\<rparr>),
      kubernetes_GetResource = (\<lambda>name namespace. Inl (NotFoundError name)),
      kubernetes_CreateResource = (\<lambda>obj. None),
      kubernetes_UpdateResource = (\<lambda>obj. None),
      kubernetes_GetLiveResource = (\<lambda>obj. Inl (NotFoundError (obj_Name obj))),
      kubernetes_ParseStatus =
        (\<lambda>obj. Inr \<lparr>gs_Phase = PipelinePhaseRunning, gs_ObservedGeneration = 1,
                     gs_Conditions = []\<rparr>),
      usde_GetUserStrategy = (\<lambda>namespace. Inr PPNDStrategyID),
      usde_ResourceNeedsUpdating = (\<lambda>new existing. Inr (False, UpgradeStrategyNoOp)),
      needPPND = (\<lambda>rollout new required. Inr (Some False)),
      processExistingPipelineWithPPND = (\<lambda>rollout existing new. Inr False),
      processResourceWithProgressive = (\<lambda>rollout existing. Inr False),
      garbageCollectChildren = (\<lambda>rollout. None),
      time_Now = 100,
      finalizerName = ''numaplane'',
      LabelKeyISBServiceNameForPipeline = ''isbsvc-name'',
      LabelKeyParentRollout = ''parent-rollout-name'',
      LabelKeyUpgradeState = ''upgrade-state'',
      LabelValueUpgradePromoted = ''promoted'',
      NumaflowPipelineKind = ''Pipeline'',
      NumaflowAPIGroup = ''numaflow.numaproj.io'',
      NumaflowAPIVersion = ''v1alpha1'',
      PipelineRolloutKind = ''PipelineRollout''\<rparr>"

definition sample_world :: world where
  "sample_world = \<lparr>calls = [], inProgressStrategies = (\<lambda>key. None)\<rparr>"




text \<open>
  A world in which PPND is in progress for the sample rollout, and answers with which the live
  child is found and the PPND step reports that it is done.
\<close>

definition sample_world_ppnd :: world where
  "sample_world_ppnd =
     \<lparr>calls = [],
      inProgressStrategies = (\<lambda>key. None)((''default'', ''my-pipeline'') \<mapsto> UpgradeStrategyPPND)\<rparr>"

definition sample_env_ppnd_done :: env where
  "sample_env_ppnd_done =
     sample_env\<lparr>kubernetes_GetLiveResource := (\<lambda>obj. Inr (sample_child ''uid-1'')),
                processExistingPipelineWithPPND := (\<lambda>rollout existing new. Inr True)\<rparr>"

section \<open>Verification\<close>

subsection \<open>Properties of the key encoding\<close>

lemma strings_Index_lower: "- 1 \<le> strings_Index s c"
  by (induction s) (auto simp: Let_def)

lemma strings_Index_first:
  "c \<notin> set p \<Longrightarrow> strings_Index (p @ c # r) c = int (length p)"
  by (induction p) (auto simp: Let_def)

lemma strings_Index_absent: "c \<notin> set s \<Longrightarrow> strings_Index s c = - 1"
  by (induction s) (auto simp: Let_def)

lemma keyToNamespacedName_encode:
  assumes "CHR ''/'' \<notin> set (Namespace nn)"
  shows "keyToNamespacedName (namespacedNameToKey nn) = Inr nn"
proof -
  have idx: "strings_Index (Namespace nn @ CHR ''/'' # Name nn) (CHR ''/'')
      = int (length (Namespace nn))"
    using assms by (rule strings_Index_first)
  show ?thesis
    by (simp add: keyToNamespacedName_def namespacedNameToKey_def idx Let_def nat_add_distrib)
qed

text \<open>
  C10. For every namespaced name whose namespace holds no \<open>/\<close>, decoding the key built from it
  succeeds and gives the name back; hence two such names with the same key are the same name,
  and a worker that takes the enqueued key from the queue processes that very name.
\<close>

theorem key_roundtrip:
  "CHR ''/'' \<notin> set (Namespace nn) \<Longrightarrow>
     keyToNamespacedName (namespacedNameToKey nn) = Inr nn \<and>
     (\<forall>nn'. CHR ''/'' \<notin> set (Namespace nn') \<longrightarrow>
        namespacedNameToKey nn' = namespacedNameToKey nn \<longrightarrow> nn' = nn) \<and>
     (\<forall>process s key. enqueuePipeline nn = [Queue_Add key] \<longrightarrow>
        snd (processQueueKey process key s) = snd (process nn s))"
proof (intro conjI)
  assume ns: "CHR ''/'' \<notin> set (Namespace nn)"
  show decoded: "keyToNamespacedName (namespacedNameToKey nn) = Inr nn"
    using ns by (rule keyToNamespacedName_encode)
  show "\<forall>nn'. CHR ''/'' \<notin> set (Namespace nn') \<longrightarrow>
        namespacedNameToKey nn' = namespacedNameToKey nn \<longrightarrow> nn' = nn"
  proof (intro allI impI)
    fix nn' :: NamespacedName
    assume ns': "CHR ''/'' \<notin> set (Namespace nn')"
      and eq: "namespacedNameToKey nn' = namespacedNameToKey nn"
    have "Inr nn' = keyToNamespacedName (namespacedNameToKey nn')"
      using ns' by (simp add: keyToNamespacedName_encode)
    also have "\<dots> = Inr nn"
      using eq ns by (simp add: keyToNamespacedName_encode)
    finally show "nn' = nn" by simp
  qed
  show "\<forall>process s key. enqueuePipeline nn = [Queue_Add key] \<longrightarrow>
        snd (processQueueKey process key s) = snd (process nn s)"
    by (auto simp: enqueuePipeline_def processQueueKey_def decoded split: prod.splits)
qed

theorem key_roundtrip_witness:
  "CHR ''/'' \<notin> set ''default'' \<and>
   keyToNamespacedName (namespacedNameToKey \<lparr>Namespace = ''default'', Name = ''my/pipeline''\<rparr>)
     = Inr \<lparr>Namespace = ''default'', Name = ''my/pipeline''\<rparr>"
proof -
  have ns: "CHR ''/'' \<notin> set (Namespace \<lparr>Namespace = ''default'', Name = ''my/pipeline''\<rparr>)"
    by simp
  from key_roundtrip [OF ns]
  have "keyToNamespacedName
          (namespacedNameToKey \<lparr>Namespace = ''default'', Name = ''my/pipeline''\<rparr>)
        = Inr \<lparr>Namespace = ''default'', Name = ''my/pipeline''\<rparr>" ..
  then show ?thesis by simp
qed

subsection \<open>The wait-group of the worker pool\<close>

lemma runWorkers_loop_counts:
  "i \<le> numWorkers \<Longrightarrow>
     shutdownWorkerWaitGroup (runWorkers_loop i r)
       = shutdownWorkerWaitGroup r + (numWorkers - i) * numWorkers \<and>
     int (workers (runWorkers_loop i r)) = int (workers r) + (numWorkers - i)"
proof (induction i r rule: runWorkers_loop.induct)
  case (1 i r)
  show ?case
  proof (cases "i < numWorkers")
    case True
    then have "i + 1 \<le> numWorkers" by simp
    from "1.IH" [OF True this] True show ?thesis
      by (subst (1 2) runWorkers_loop.simps) (simp add: algebra_simps)
  next
    case False
    with "1.prems" have "i = numWorkers" by simp
    then show ?thesis
      by (subst (1 2) runWorkers_loop.simps) simp
  qed
qed

lemma workers_quit_counts:
  "n \<le> workers r \<Longrightarrow>
     shutdownWorkerWaitGroup (workers_quit n r) = shutdownWorkerWaitGroup r - int n \<and>
     workers (workers_quit n r) = workers r - n"
  by (induction n arbitrary: r) auto

text \<open>
  C9. Started on a fresh reconciler, \<open>runWorkers\<close> starts 16 workers and leaves the wait-group at
  \<open>16 * 16 = 256\<close>, since each of the 16 iterations adds \<open>numWorkers\<close>; when all 16 workers have
  seen the queue shut down and signalled \<open>Done\<close> the counter is 240, not 0, so the wait in
  \<open>Shutdown\<close> does not return.
\<close>

theorem Shutdown_never_returns:
  "workers (runWorkers \<lparr>shutdownWorkerWaitGroup = 0, workers = 0\<rparr>) = 16 \<and>
   shutdownWorkerWaitGroup (runWorkers \<lparr>shutdownWorkerWaitGroup = 0, workers = 0\<rparr>) = 256 \<and>
   shutdownWorkerWaitGroup
     (workers_quit 16 (runWorkers \<lparr>shutdownWorkerWaitGroup = 0, workers = 0\<rparr>)) = 240 \<and>
   \<not> Shutdown_returns (runWorkers \<lparr>shutdownWorkerWaitGroup = 0, workers = 0\<rparr>)"
proof -
  let ?r = "runWorkers \<lparr>shutdownWorkerWaitGroup = 0, workers = 0\<rparr>"
  have c: "shutdownWorkerWaitGroup ?r = 256" and n: "workers ?r = 16"
    using runWorkers_loop_counts [of 0 "\<lparr>shutdownWorkerWaitGroup = 0, workers = 0\<rparr>"]
    by (simp_all add: runWorkers_def numWorkers_def)
  have q: "shutdownWorkerWaitGroup (workers_quit 16 ?r) = 240"
    using workers_quit_counts [of 16 ?r] c n by simp
  show ?thesis
    using c n q by (simp add: Shutdown_returns_def Wait_returns_def)
qed

subsection \<open>The worker's decision to add a key again\<close>




subsection \<open>Health of the child\<close>

lemma getPipelineChildResourceHealth_first:
  "getPipelineChildResourceHealth conditions =
     (case nontrue_subcomponents conditions of
        [] \<Rightarrow> (''True'', [])
      | c # cs \<Rightarrow> (cond_Status c, cond_Reason c))"
  by (induction conditions) (auto simp: nontrue_subcomponents_def subcomponent_def)

text \<open>
  C5, as the code has it. Let \<open>c\<close> be the first subcomponent condition, in the order of the
  list, whose status is not \<open>"True"\<close> (if there is one). The projection takes the first rule
  that applies: (1) \<open>c\<close> has the reason \<open>"Progressing"\<close>, or the observed generation is behind the
  child's: unhealthy, \<open>Progressing\<close>; (2) phase \<open>Failed\<close>: unhealthy, \<open>PipelineFailed\<close>; (3) \<open>c\<close>
  has the status \<open>"False"\<close>: unhealthy, \<open>PipelineFailed\<close>, with its own message; (4) phase
  \<open>Paused\<close> or \<open>Pausing\<close>: health unknown, \<open>PipelineUnknown\<close>; (5) phase \<open>Deleting\<close>: unhealthy,
  \<open>PipelineDeleting\<close>; (6) phase \<open>Unknown\<close>, or \<open>c\<close> has the status \<open>"Unknown"\<close>: health unknown;
  (7) otherwise healthy.
\<close>

theorem health_precedence:
  fixes pipelineStatus :: GenericStatus and pipelineGeneration generation :: int
  defines "first \<equiv> nontrue_subcomponents (gs_Conditions pipelineStatus)"
  defines "r1 \<equiv> (first \<noteq> [] \<and> cond_Reason (hd first) = ''Progressing'')
                  \<or> gs_ObservedGeneration pipelineStatus < pipelineGeneration"
  defines "r2 \<equiv> gs_Phase pipelineStatus = PipelinePhaseFailed"
  defines "r3 \<equiv> first \<noteq> [] \<and> cond_Status (hd first) = ''False''"
  defines "r4 \<equiv> gs_Phase pipelineStatus = PipelinePhasePaused
                  \<or> gs_Phase pipelineStatus = PipelinePhasePausing"
  defines "r5 \<equiv> gs_Phase pipelineStatus = PipelinePhaseDeleting"
  defines "r6 \<equiv> gs_Phase pipelineStatus = PipelinePhaseUnknown
                  \<or> (first \<noteq> [] \<and> cond_Status (hd first) = ''Unknown'')"
  defines "health \<equiv> setChildResourcesHealthCondition generation pipelineGeneration pipelineStatus"
  shows "(r1 \<longrightarrow> health = MarkChildResourcesUnhealthy ''Progressing'' ''Pipeline Progressing''
                             generation) \<and>
         (\<not> r1 \<and> r2 \<longrightarrow>
            health = MarkChildResourcesUnhealthy ''PipelineFailed'' ''Pipeline Phase=Failed''
                       generation) \<and>
         (\<not> r1 \<and> \<not> r2 \<and> r3 \<longrightarrow>
            health = MarkChildResourcesUnhealthy ''PipelineFailed''
                       ''Pipeline Failed, Pipeline Child Resource(s) Unhealthy'' generation) \<and>
         (\<not> r1 \<and> \<not> r2 \<and> \<not> r3 \<and> r4 \<longrightarrow>
            health = MarkChildResourcesHealthUnknown ''PipelineUnknown''
                       ''Pipeline Pausing - health unknown'' generation) \<and>
         (\<not> r1 \<and> \<not> r2 \<and> \<not> r3 \<and> \<not> r4 \<and> r5 \<longrightarrow>
            health = MarkChildResourcesUnhealthy ''PipelineDeleting'' ''Pipeline Deleting''
                       generation) \<and>
         (\<not> r1 \<and> \<not> r2 \<and> \<not> r3 \<and> \<not> r4 \<and> \<not> r5 \<and> r6 \<longrightarrow>
            health = MarkChildResourcesHealthUnknown ''PipelineUnknown''
                       ''Pipeline Phase Unknown'' generation) \<and>
         (\<not> r1 \<and> \<not> r2 \<and> \<not> r3 \<and> \<not> r4 \<and> \<not> r5 \<and> \<not> r6 \<longrightarrow>
            health = MarkChildResourcesHealthy generation)"
proof (cases first)
  case Nil
  then have "getPipelineChildResourceHealth (gs_Conditions pipelineStatus) = (''True'', [])"
    by (simp add: getPipelineChildResourceHealth_first first_def)
  with Nil show ?thesis
    unfolding r1_def r2_def r3_def r4_def r5_def r6_def health_def
    by (simp add: setChildResourcesHealthCondition_def pipelineObservedGenerationCurrent_def
        not_le)
next
  case (Cons c cs)
  then have "getPipelineChildResourceHealth (gs_Conditions pipelineStatus)
               = (cond_Status c, cond_Reason c)"
    by (simp add: getPipelineChildResourceHealth_first first_def)
  with Cons show ?thesis
    unfolding r1_def r2_def r3_def r4_def r5_def r6_def health_def
    by (simp add: setChildResourcesHealthCondition_def pipelineObservedGenerationCurrent_def
        not_le)
qed

theorem health_precedence_witness:
  "setChildResourcesHealthCondition 3 1
     \<lparr>gs_Phase = PipelinePhaseRunning, gs_ObservedGeneration = 1,
      gs_Conditions =
        [\<lparr>cond_Type = ''VerticesHealthy'', cond_Status = ''True'', cond_Reason = ''Successful''\<rparr>,
         \<lparr>cond_Type = ''DaemonServiceHealthy'', cond_Status = ''Unknown'',
          cond_Reason = ''Unavailable''\<rparr>]\<rparr>
   = MarkChildResourcesHealthUnknown ''PipelineUnknown'' ''Pipeline Phase Unknown'' 3"
  using health_precedence
    [of "\<lparr>gs_Phase = PipelinePhaseRunning, gs_ObservedGeneration = 1,
          gs_Conditions =
            [\<lparr>cond_Type = ''VerticesHealthy'', cond_Status = ''True'',
              cond_Reason = ''Successful''\<rparr>,
             \<lparr>cond_Type = ''DaemonServiceHealthy'', cond_Status = ''Unknown'',
              cond_Reason = ''Unavailable''\<rparr>]\<rparr>" 1 3]
  by (simp add: nontrue_subcomponents_def subcomponent_def)

text \<open>
  A running child whose daemon service condition is \<open>"False"\<close> with a reason other than
  \<open>"Progressing"\<close>, and whose observed generation is current: a subcomponent condition is not
  true, yet the rollout is marked unhealthy with the reason \<open>PipelineFailed\<close>, not
  \<open>Progressing\<close>.
\<close>

theorem health_progressing_counterexample:
  "nontrue_subcomponents
     [\<lparr>cond_Type = ''DaemonServiceHealthy'', cond_Status = ''False'',
       cond_Reason = ''Unavailable''\<rparr>] \<noteq> [] \<and>
   setChildResourcesHealthCondition 1 1
     \<lparr>gs_Phase = PipelinePhaseRunning, gs_ObservedGeneration = 1,
      gs_Conditions =
        [\<lparr>cond_Type = ''DaemonServiceHealthy'', cond_Status = ''False'',
          cond_Reason = ''Unavailable''\<rparr>]\<rparr>
   = MarkChildResourcesUnhealthy ''PipelineFailed''
       ''Pipeline Failed, Pipeline Child Resource(s) Unhealthy'' 1 \<and>
   setChildResourcesHealthCondition 1 1
     \<lparr>gs_Phase = PipelinePhaseRunning, gs_ObservedGeneration = 1,
      gs_Conditions =
        [\<lparr>cond_Type = ''DaemonServiceHealthy'', cond_Status = ''False'',
          cond_Reason = ''Unavailable''\<rparr>]\<rparr>
   \<noteq> MarkChildResourcesUnhealthy ''Progressing'' ''Pipeline Progressing'' 1"
  by (simp add: nontrue_subcomponents_def subcomponent_def setChildResourcesHealthCondition_def
      pipelineObservedGenerationCurrent_def)

subsection \<open>Pause timestamps\<close>



subsection \<open>Merging the new definition into the existing child\<close>

lemma merge_range_lookup:
  assumes "distinct (map fst new)"
  shows "map_of (merge_range new result) k =
         (case map_of new k of Some v \<Rightarrow> Some v | None \<Rightarrow> map_of result k)"
  using assms unfolding merge_range_def
proof (induction new arbitrary: result)
  case Nil
  show ?case by simp
next
  case (Cons kv new)
  obtain key val where kv: "kv = (key, val)" by (cases kv)
  from Cons.prems have fresh: "map_of new key = None" and d: "distinct (map fst new)"
    by (auto simp: kv map_of_eq_None_iff)
  have "map_of (fold (\<lambda>(key, value). AList.update key value) new (AList.update key val result)) k
        = (case map_of new k of Some v \<Rightarrow> Some v
           | None \<Rightarrow> map_of (AList.update key val result) k)"
    using Cons.IH [OF d] .
  then show ?case
    using fresh by (simp add: kv update_conv' split: option.splits)
qed

lemma merge_range_distinct:
  "distinct (map fst result) \<Longrightarrow> distinct (map fst (merge_range new result))"
  unfolding merge_range_def
  by (induction new arbitrary: result) (auto simp: distinct_update)

lemma merged_map_lookup:
  assumes "wellformed_map new"
  shows "lookup (Some (merge_range (entries new) (entries old))) key =
         (case lookup new key of Some v \<Rightarrow> Some v | None \<Rightarrow> lookup old key)"
proof -
  have "entries (Some (merge_range (entries new) (entries old)))
          = merge_range (entries new) (entries old)"
    by (simp add: entries_def)
  then show ?thesis
    using assms merge_range_lookup [of "entries new" "entries old" key]
    by (simp add: lookup_def wellformed_map_def split: option.splits)
qed

lemma merged_map_wellformed:
  "wellformed_map old \<Longrightarrow> wellformed_map (Some (merge_range (entries new) (entries old)))"
proof -
  assume "wellformed_map old"
  then have "distinct (map fst (merge_range (entries new) (entries old)))"
    using merge_range_distinct [of "entries old" "entries new"]
    by (simp add: wellformed_map_def)
  moreover have "entries (Some (merge_range (entries new) (entries old)))
          = merge_range (entries new) (entries old)"
    by (simp add: entries_def)
  ultimately show ?thesis by (simp add: wellformed_map_def)
qed

lemma merge_value:
  "merge existing desired =
     Inr (existing\<lparr>obj_Spec := obj_Spec desired,
            obj_Labels :=
              Some (merge_range (entries (obj_Labels desired)) (entries (obj_Labels existing))),
            obj_Annotations :=
              Some (merge_range (entries (obj_Annotations desired))
                      (entries (obj_Annotations existing)))\<rparr>)"
  by (simp add: merge_def Let_def entries_def)

text \<open>
  C3. For two pipeline objects whose label and annotation maps hold each key once (as every Go
  map does), \<open>merge\<close> succeeds with an object whose spec is the desired object's spec, whose
  labels and whose annotations read, at every key, the desired object's value where it has one
  and the existing object's value otherwise, and whose other fields are those of the existing
  object. The merged maps again hold each key once when the existing object's do. The inputs
  are values: they are not changed.
\<close>

theorem merge_correct:
  assumes "wellformed_map (obj_Labels desired)"
    and "wellformed_map (obj_Annotations desired)"
  shows "\<exists>merged.
           merge existing desired = Inr merged \<and>
           obj_Spec merged = obj_Spec desired \<and>
           (\<forall>key. lookup (obj_Labels merged) key =
                    (case lookup (obj_Labels desired) key of
                       Some value \<Rightarrow> Some value
                     | None \<Rightarrow> lookup (obj_Labels existing) key)) \<and>
           (\<forall>key. lookup (obj_Annotations merged) key =
                    (case lookup (obj_Annotations desired) key of
                       Some value \<Rightarrow> Some value
                     | None \<Rightarrow> lookup (obj_Annotations existing) key)) \<and>
           merged = existing\<lparr>obj_Spec := obj_Spec merged, obj_Labels := obj_Labels merged,
                              obj_Annotations := obj_Annotations merged\<rparr> \<and>
           (wellformed_map (obj_Labels existing) \<longrightarrow> wellformed_map (obj_Labels merged)) \<and>
           (wellformed_map (obj_Annotations existing) \<longrightarrow>
              wellformed_map (obj_Annotations merged))"
proof -
  let ?merged = "existing\<lparr>obj_Spec := obj_Spec desired,
      obj_Labels :=
        Some (merge_range (entries (obj_Labels desired)) (entries (obj_Labels existing))),
      obj_Annotations :=
        Some (merge_range (entries (obj_Annotations desired))
                (entries (obj_Annotations existing)))\<rparr>"
  have "merge existing desired = Inr ?merged" by (rule merge_value)
  moreover have "obj_Spec ?merged = obj_Spec desired" by simp
  moreover have "\<forall>key. lookup (obj_Labels ?merged) key =
                    (case lookup (obj_Labels desired) key of
                       Some value \<Rightarrow> Some value
                     | None \<Rightarrow> lookup (obj_Labels existing) key)"
    using merged_map_lookup [OF assms(1)] by simp
  moreover have "\<forall>key. lookup (obj_Annotations ?merged) key =
                    (case lookup (obj_Annotations desired) key of
                       Some value \<Rightarrow> Some value
                     | None \<Rightarrow> lookup (obj_Annotations existing) key)"
    using merged_map_lookup [OF assms(2)] by simp
  moreover have "?merged = existing\<lparr>obj_Spec := obj_Spec ?merged,
      obj_Labels := obj_Labels ?merged, obj_Annotations := obj_Annotations ?merged\<rparr>"
    by simp
  moreover have "wellformed_map (obj_Labels existing) \<longrightarrow> wellformed_map (obj_Labels ?merged)"
    using merged_map_wellformed by simp
  moreover have "wellformed_map (obj_Annotations existing) \<longrightarrow>
      wellformed_map (obj_Annotations ?merged)"
    using merged_map_wellformed by simp
  ultimately show ?thesis by blast
qed

theorem merge_correct_witness:
  "\<exists>merged.
     merge
       \<lparr>obj_Kind = ''Pipeline'', obj_APIVersion = ''numaflow.numaproj.io/v1alpha1'',
        obj_Name = ''my-pipeline'', obj_Namespace = ''default'', obj_Generation = 4,
        obj_Labels = Some [(''team'', ''a''), (''injected'', ''x'')], obj_Annotations = None,
        obj_OwnerReferences = [\<lparr>ref_Kind = ''PipelineRollout'', ref_UID = ''u1''\<rparr>],
        obj_Spec = ''old'', obj_Status = ''running''\<rparr>
       \<lparr>obj_Kind = ''Pipeline'', obj_APIVersion = ''numaflow.numaproj.io/v1alpha1'',
        obj_Name = ''my-pipeline'', obj_Namespace = ''default'', obj_Generation = 0,
        obj_Labels = Some [(''team'', ''b''), (''state'', ''promoted'')],
        obj_Annotations = None,
        obj_OwnerReferences = [\<lparr>ref_Kind = ''PipelineRollout'', ref_UID = ''u1''\<rparr>],
        obj_Spec = ''new'', obj_Status = []\<rparr> = Inr merged \<and>
     obj_Spec merged = ''new'' \<and>
     lookup (obj_Labels merged) ''team'' = Some ''b'' \<and>
     lookup (obj_Labels merged) ''injected'' = Some ''x'' \<and>
     lookup (obj_Labels merged) ''state'' = Some ''promoted'' \<and>
     obj_Generation merged = 4 \<and> obj_Status merged = ''running''"
proof -
  let ?existing = "\<lparr>obj_Kind = ''Pipeline'', obj_APIVersion = ''numaflow.numaproj.io/v1alpha1'',
        obj_Name = ''my-pipeline'', obj_Namespace = ''default'', obj_Generation = 4,
        obj_Labels = Some [(''team'', ''a''), (''injected'', ''x'')], obj_Annotations = None,
        obj_OwnerReferences = [\<lparr>ref_Kind = ''PipelineRollout'', ref_UID = ''u1''\<rparr>],
        obj_Spec = ''old'', obj_Status = ''running''\<rparr>"
  let ?desired = "\<lparr>obj_Kind = ''Pipeline'', obj_APIVersion = ''numaflow.numaproj.io/v1alpha1'',
        obj_Name = ''my-pipeline'', obj_Namespace = ''default'', obj_Generation = 0,
        obj_Labels = Some [(''team'', ''b''), (''state'', ''promoted'')],
        obj_Annotations = None,
        obj_OwnerReferences = [\<lparr>ref_Kind = ''PipelineRollout'', ref_UID = ''u1''\<rparr>],
        obj_Spec = ''new'', obj_Status = []\<rparr>"
  have l: "wellformed_map (obj_Labels ?desired)"
    by (simp add: wellformed_map_def entries_def)
  have a: "wellformed_map (obj_Annotations ?desired)"
    by (simp add: wellformed_map_def entries_def)
  from merge_correct [OF l a, of ?existing] obtain merged where
    m: "merge ?existing ?desired = Inr merged"
    and s: "obj_Spec merged = obj_Spec ?desired"
    and lab: "\<And>key. lookup (obj_Labels merged) key =
                (case lookup (obj_Labels ?desired) key of
                   Some value \<Rightarrow> Some value
                 | None \<Rightarrow> lookup (obj_Labels ?existing) key)"
    and rest: "merged = ?existing\<lparr>obj_Spec := obj_Spec merged, obj_Labels := obj_Labels merged,
                              obj_Annotations := obj_Annotations merged\<rparr>"
    by blast
  have "obj_Generation merged = 4 \<and> obj_Status merged = ''running''"
    by (subst (1 2) rest) simp
  moreover have "lookup (obj_Labels merged) ''team'' = Some ''b''"
    "lookup (obj_Labels merged) ''injected'' = Some ''x''"
    "lookup (obj_Labels merged) ''state'' = Some ''promoted''"
    by (subst lab, simp add: lookup_def entries_def)+
  ultimately show ?thesis using m s by auto
qed

subsection \<open>Comparison of child specs\<close>

lemma split_desiredPhase_path:
  "strings_Split ''lifecycle.desiredPhase'' (CHR ''.'') = [''lifecycle'', ''desiredPhase'']"
  by simp

lemma split_lifecycle_path: "strings_Split ''lifecycle'' (CHR ''.'') = [''lifecycle'']"
  by simp

lemma withoutDesiredPhase_spec:
  "json_Unmarshal (obj_Spec obj) = Inr specAsMap \<Longrightarrow>
     withoutDesiredPhase json_Unmarshal obj = Inr (spec_exclude_desiredPhase specAsMap)"
  apply (simp add: withoutDesiredPhase_def spec_exclude_desiredPhase_def RemovePaths_def
      split_desiredPhase_path split_lifecycle_path Let_def split: option.splits json.splits)
  apply (auto simp: fmap_ext)
  done

lemma exclude_with_desiredPhase:
  "spec_exclude_desiredPhase (Some (with_desiredPhase p doc))
     = spec_exclude_desiredPhase (Some (with_desiredPhase q doc))"
  by (simp add: spec_exclude_desiredPhase_def with_desiredPhase_def fmdrop_fmupd_same
      split: option.splits json.splits)

text \<open>
  C4. When the specs of both definitions decode, \<open>childNeedsUpdating\<close> answers exactly whether
  the decoded specs differ once \<open>desiredPhase\<close> is removed from the object at \<open>lifecycle\<close>, and
  \<open>lifecycle\<close> itself when that leaves it empty. So it answers false for two specs that are
  equal after that exclusion, and in particular for two specs that are one document with the
  desired phase set to two values.
\<close>

theorem childNeedsUpdating_exclusion:
  assumes "json_Unmarshal (obj_Spec a) = Inr specA"
    and "json_Unmarshal (obj_Spec b) = Inr specB"
  shows "childNeedsUpdating json_Unmarshal a b
           = Inr (spec_exclude_desiredPhase specA \<noteq> spec_exclude_desiredPhase specB) \<and>
         (spec_exclude_desiredPhase specA = spec_exclude_desiredPhase specB \<longrightarrow>
            childNeedsUpdating json_Unmarshal a b = Inr False) \<and>
         (\<forall>doc p q. specA = Some (with_desiredPhase p doc) \<and>
                     specB = Some (with_desiredPhase q doc) \<longrightarrow>
            childNeedsUpdating json_Unmarshal a b = Inr False)"
proof -
  have eq: "childNeedsUpdating json_Unmarshal a b
           = Inr (spec_exclude_desiredPhase specA \<noteq> spec_exclude_desiredPhase specB)"
    using assms by (simp add: childNeedsUpdating_def withoutDesiredPhase_spec)
  moreover have "\<forall>doc p q. specA = Some (with_desiredPhase p doc) \<and>
                     specB = Some (with_desiredPhase q doc) \<longrightarrow>
            childNeedsUpdating json_Unmarshal a b = Inr False"
    using eq exclude_with_desiredPhase by auto
  ultimately show ?thesis by simp
qed

theorem childNeedsUpdating_exclusion_witness:
  "childNeedsUpdating
     (\<lambda>raw. if raw = ''paused'' then
               Inr (Some (fmupd ''lifecycle''
                            (JObject (fmupd ''desiredPhase'' (JString ''Paused'') fmempty))
                            (fmupd ''interStepBufferServiceName'' (JString ''default'')
                               fmempty)))
             else if raw = ''plain'' then
               Inr (Some (fmupd ''interStepBufferServiceName'' (JString ''default'') fmempty))
             else Inl (ExternalError ''unexpected end of JSON input''))
     \<lparr>obj_Kind = ''Pipeline'', obj_APIVersion = ''numaflow.numaproj.io/v1alpha1'',
      obj_Name = ''my-pipeline'', obj_Namespace = ''default'', obj_Generation = 2,
      obj_Labels = None, obj_Annotations = None, obj_OwnerReferences = [],
      obj_Spec = ''paused'', obj_Status = []\<rparr>
     \<lparr>obj_Kind = ''Pipeline'', obj_APIVersion = ''numaflow.numaproj.io/v1alpha1'',
      obj_Name = ''my-pipeline'', obj_Namespace = ''default'', obj_Generation = 0,
      obj_Labels = None, obj_Annotations = None, obj_OwnerReferences = [],
      obj_Spec = ''plain'', obj_Status = []\<rparr>
   = Inr False"
proof -
  let ?paused = "Some (fmupd ''lifecycle''
                            (JObject (fmupd ''desiredPhase'' (JString ''Paused'') fmempty))
                            (fmupd ''interStepBufferServiceName'' (JString ''default'')
                               fmempty))"
  let ?plain = "Some (fmupd ''interStepBufferServiceName'' (JString ''default'') fmempty)"
  let ?dec = "\<lambda>raw. if raw = ''paused'' then Inr ?paused
             else if raw = ''plain'' then Inr ?plain
             else Inl (ExternalError ''unexpected end of JSON input'')"
  let ?a = "\<lparr>obj_Kind = ''Pipeline'', obj_APIVersion = ''numaflow.numaproj.io/v1alpha1'',
      obj_Name = ''my-pipeline'', obj_Namespace = ''default'', obj_Generation = 2,
      obj_Labels = None, obj_Annotations = None, obj_OwnerReferences = [],
      obj_Spec = ''paused'', obj_Status = []\<rparr>"
  let ?b = "\<lparr>obj_Kind = ''Pipeline'', obj_APIVersion = ''numaflow.numaproj.io/v1alpha1'',
      obj_Name = ''my-pipeline'', obj_Namespace = ''default'', obj_Generation = 0,
      obj_Labels = None, obj_Annotations = None, obj_OwnerReferences = [],
      obj_Spec = ''plain'', obj_Status = []\<rparr>"
  have da: "?dec (obj_Spec ?a) = Inr ?paused" by simp
  have db: "?dec (obj_Spec ?b) = Inr ?plain" by simp
  have ea: "spec_exclude_desiredPhase ?paused = ?plain"
    by (simp add: spec_exclude_desiredPhase_def fmdrop_fmupd_same fmdrop_fmupd)
  have eb: "spec_exclude_desiredPhase ?plain = ?plain"
    by (simp add: spec_exclude_desiredPhase_def)
  from childNeedsUpdating_exclusion
        [where json_Unmarshal = ?dec and a = ?a and b = ?b and specA = ?paused
           and specB = ?plain, OF da db]
  show ?thesis by (simp only: ea eb simp_thms)
qed

subsection \<open>A child that the rollout does not own\<close>

lemma checkOwnerRef_range_iff: "checkOwnerRef_range ownerRefs uid = owned_by ownerRefs uid"
  by (induction ownerRefs) (auto simp: owned_by_def)

lemma checkOwnerRef_iff: "checkOwnerRef ownerRefs uid = owned_by ownerRefs uid"
  by (cases ownerRefs) (auto simp: checkOwnerRef_def checkOwnerRef_range_iff owned_by_def)

lemma ensure_finalizer:
  "(if \<not> ContainsFinalizer r f then AddFinalizer r f else r) = AddFinalizer r f"
  by (simp add: ContainsFinalizer_def AddFinalizer_def)

lemma makeRunningPipelineDefinition_calls:
  "makeRunningPipelineDefinition env r w = (res, w1) \<Longrightarrow>
     w1 = record_call (Call_getChildName (LabelValueUpgradePromoted env)) w"
  by (auto simp: makeRunningPipelineDefinition_def Let_def split: sum.splits prod.splits)

text \<open>
  C2. Take a rollout that is not being deleted, for which the child's definition can be built
  and the store returns an existing child under the definition's name. When no owner reference
  of that child has the kind \<open>PipelineRollout\<close> and the rollout's UID, \<open>reconcile\<close> returns the
  error that the pipeline is not owned, and the only calls it has made are the two reads
  (finding the child's name, getting the child): none that can change a child.
\<close>

theorem reconcile_foreign_child:
  assumes "ro_DeletionTimestamp pipelineRollout = None"
    and "makeRunningPipelineDefinition env
           (AddFinalizer pipelineRollout (finalizerName env)) w = (Inr newPipelineDef, w1)"
    and "kubernetes_GetResource env (obj_Name newPipelineDef) (obj_Namespace newPipelineDef)
           = Inr existing"
    and "\<not> owned_by (obj_OwnerReferences existing) (ro_UID pipelineRollout)"
  shows "\<exists>rollout' w'.
           reconcile env pipelineRollout w =
             ((False, Some existing, Some (PipelineNotOwned (obj_Name existing))),
              rollout', w') \<and>
           calls w' = calls w @
             [Call_getChildName (LabelValueUpgradePromoted env),
              Call_GetResource (obj_Name newPipelineDef) (obj_Namespace newPipelineDef)] \<and>
           filter mutates_child
             [Call_getChildName (LabelValueUpgradePromoted env),
              Call_GetResource (obj_Name newPipelineDef) (obj_Namespace newPipelineDef)] = [] \<and>
           inProgressStrategies w' = inProgressStrategies w"
proof -
  have uid: "ro_UID (AddFinalizer pipelineRollout (finalizerName env)) = ro_UID pipelineRollout"
    by (simp add: AddFinalizer_def)
  have run: "reconcile env pipelineRollout w =
           ((False, Some existing, Some (PipelineNotOwned (obj_Name existing))),
            AddFinalizer pipelineRollout (finalizerName env),
            record_call
              (Call_GetResource (obj_Name newPipelineDef) (obj_Namespace newPipelineDef)) w1)"
    using assms by (simp add: reconcile_def ensure_finalizer Let_def checkOwnerRef_iff uid)
  have w1: "w1 = record_call (Call_getChildName (LabelValueUpgradePromoted env)) w"
    using assms(2) by (rule makeRunningPipelineDefinition_calls)
  show ?thesis
    unfolding run by (simp add: w1 record_call_def mutates_child_def)
qed

theorem reconcile_foreign_child_witness:
  "\<exists>rollout' w'.
     reconcile
       (sample_env\<lparr>kubernetes_GetResource := (\<lambda>name namespace. Inr (sample_child ''uid-2''))\<rparr>)
       sample_rollout sample_world
     = ((False, Some (sample_child ''uid-2''), Some (PipelineNotOwned ''my-pipeline-0'')),
        rollout', w') \<and>
     calls w' = [Call_getChildName ''promoted'', Call_GetResource ''my-pipeline-0'' ''default'']"
proof -
  let ?env = "sample_env\<lparr>kubernetes_GetResource :=
                (\<lambda>name namespace. Inr (sample_child ''uid-2''))\<rparr>"
  have del: "ro_DeletionTimestamp sample_rollout = None"
    by (simp add: sample_rollout_def)
  obtain def w1 where
    run: "makeRunningPipelineDefinition ?env (AddFinalizer sample_rollout (finalizerName ?env))
            sample_world = (Inr def, w1)"
    and name: "obj_Name def = ''my-pipeline-0''" and ns: "obj_Namespace def = ''default''"
    by (simp add: makeRunningPipelineDefinition_def getBasePipelineMetadata_def
        makePipelineDefinition_def sample_env_def sample_rollout_def AddFinalizer_def Let_def)
  have found: "kubernetes_GetResource ?env (obj_Name def) (obj_Namespace def)
                 = Inr (sample_child ''uid-2'')"
    by (simp add: sample_env_def)
  have foreign: "\<not> owned_by (obj_OwnerReferences (sample_child ''uid-2''))
                      (ro_UID sample_rollout)"
    by (simp add: owned_by_def sample_child_def sample_rollout_def)
  from reconcile_foreign_child [OF del run found foreign] show ?thesis
    by (auto simp: name ns sample_child_def sample_env_def sample_world_def)
qed

subsection \<open>Writes of the rollout's status\<close>

lemma sw_record_call:
  "status_write_calls (record_call c w)
     = status_write_calls w @ (if is_status_write c then [c] else [])"
  by (simp add: record_call_def status_write_calls_def)

lemma sw_strategies [simp]:
  "status_write_calls (w\<lparr>inProgressStrategies := m\<rparr>) = status_write_calls w"
  by (simp add: status_write_calls_def)












lemma status_writes_ErrorHandler [simp]:
  "status_write_calls (ErrorHandler reason w) = status_write_calls w"
  by (simp add: ErrorHandler_def sw_record_call is_status_write_def)









subsection \<open>The strategy in progress\<close>

lemma key_status_method [simp]: "rollout_key (status_method c r) = rollout_key r"
  by (simp add: rollout_key_def status_method_def)

lemma key_setRolloutStrategy [simp]: "rollout_key (setRolloutStrategy r s) = rollout_key r"
  by (simp add: rollout_key_def setRolloutStrategy_def)

lemma strategies_record_call [simp]:
  "inProgressStrategies (record_call c w) = inProgressStrategies w"
  by (simp add: record_call_def)

lemma upgrade_status_method [simp]:
  "st_UpgradeInProgress (ro_Status (status_method c r)) = st_UpgradeInProgress (ro_Status r)"
  by (simp add: status_method_def)

lemma picks_record_call:
  "filter picks_strategy (calls (record_call c w))
     = filter picks_strategy (calls w) @ (if picks_strategy c then [c] else [])"
  by (simp add: record_call_def)

lemma valid_record_call [simp]: "strategy_valid r (record_call c w) = strategy_valid r w"
  by (simp add: strategy_valid_def)

lemma valid_status_method [simp]: "strategy_valid (status_method c r) w = strategy_valid r w"
  by (simp add: strategy_valid_def)

lemma observed_marked [simp]:
  "getStrategy (status_method c r) (record_call c1 (record_call c2 w))
     = (observed_strategy r w, snd (getStrategy r w)\<lparr>calls := calls w @ [c2, c1]\<rparr>)"
  by (simp add: getStrategy_def getRolloutStrategy_def observed_strategy_def record_call_def
      split: option.splits)

lemma getStrategy_table:
  "inProgressStrategies (snd (getStrategy r w)) (rollout_key r)
     = (if observed_strategy r w = UpgradeStrategyNoOp
           \<and> inProgressStrategies w (rollout_key r) = None
           \<and> getRolloutStrategy r = None
        then None else Some (observed_strategy r w))"
  by (auto simp: getStrategy_def observed_strategy_def split: option.splits)

lemma getStrategy_calls [simp]: "calls (snd (getStrategy r w)) = calls w"
  by (simp add: getStrategy_def split: option.splits)

lemma observed_from_table:
  "inProgressStrategies w (rollout_key r) = Some s \<Longrightarrow> observed_strategy r w = s"
  by (simp add: getStrategy_def observed_strategy_def)

lemma valid_observed:
  "strategy_valid r w \<Longrightarrow>
     in_progress_value (observed_strategy r w) \<and> strategy_valid r (snd (getStrategy r w))"
  by (auto simp: strategy_valid_def getStrategy_def getRolloutStrategy_def observed_strategy_def
      in_progress_value_def split: option.splits)

lemma valid_setStrategy:
  "setStrategy r s w = (r1, w1) \<Longrightarrow> in_progress_value s \<Longrightarrow> strategy_valid r1 w1"
  by (auto simp: setStrategy_def store_strategy_def strategy_valid_def setRolloutStrategy_def
      rollout_key_def)

lemma valid_unsetStrategy:
  "unsetStrategy r w = (r1, w1) \<Longrightarrow> strategy_valid r1 w1"
  by (auto simp: unsetStrategy_def store_strategy_def strategy_valid_def setRolloutStrategy_def
      rollout_key_def in_progress_value_def)

lemma valid_select_progressive:
  "select_progressive u t s r w = (s1, r1, w1) \<Longrightarrow> strategy_valid r w \<Longrightarrow>
     strategy_valid r1 w1"
  by (auto simp: select_progressive_def in_progress_value_def split: if_splits
      dest!: valid_setStrategy)

lemma valid_select_strategy:
  "select_strategy env u t n s r w = (res, r1, w1) \<Longrightarrow> strategy_valid r w \<Longrightarrow>
     strategy_valid r1 w1"
  by (auto simp: select_strategy_def Let_def in_progress_value_def
      split: if_splits sum.splits option.splits prod.splits
      dest!: valid_setStrategy valid_select_progressive)

lemma refresh_existing_keeps:
  "refresh_existing env s e n w = (res, w1) \<Longrightarrow>
     inProgressStrategies w1 = inProgressStrategies w \<and>
     filter picks_strategy (calls w1) = filter picks_strategy (calls w)"
  by (auto simp: refresh_existing_def Let_def picks_record_call picks_strategy_def
      split: if_splits sum.splits)

lemma valid_refresh_existing:
  "refresh_existing env s e n w = (res, w1) \<Longrightarrow> strategy_valid r w1 = strategy_valid r w"
  by (auto simp: strategy_valid_def dest!: refresh_existing_keeps)

lemma valid_run_strategy:
  "run_strategy env s needs t e n r w = (res, r1, w1) \<Longrightarrow> strategy_valid r w \<Longrightarrow>
     strategy_valid r1 w1"
  by (auto simp: run_strategy_def Let_def
      split: if_splits sum.splits option.splits UpgradeStrategy.splits
      dest!: valid_unsetStrategy)

lemma run_strategy_effect:
  assumes "run_strategy env s needs t e n r w = (res, r1, w1)"
    and "s = UpgradeStrategyPPND \<or> s = UpgradeStrategyProgressive"
  shows "filter picks_strategy (calls w1) = filter picks_strategy (calls w) \<and>
         (inProgressStrategies w1 = inProgressStrategies w
          \<or> inProgressStrategies w1
               = (inProgressStrategies w)(rollout_key r \<mapsto> UpgradeStrategyNoOp) \<and>
             (s = UpgradeStrategyPPND \<and> processExistingPipelineWithPPND env r e n = Inr True
              \<or> s = UpgradeStrategyProgressive \<and> needs \<and>
                processResourceWithProgressive env r e = Inr True))"
  using assms
  by (auto simp: run_strategy_def Let_def picks_record_call picks_strategy_def
      unsetStrategy_def store_strategy_def
      split: if_splits sum.splits option.splits)

lemma valid_processExistingPipeline:
  assumes run: "processExistingPipeline env r existing new w = (err, r', w')"
    and valid: "strategy_valid r w"
  shows "strategy_valid r' w'"
proof (cases "usde_GetUserStrategy env (obj_Namespace new)")
  case (Inl e)
  with run valid show ?thesis
    by (auto simp: processExistingPipeline_def Let_def)
next
  case user: (Inr user)
  show ?thesis
  proof (cases "usde_ResourceNeedsUpdating env new existing")
    case (Inl e)
    with run valid user show ?thesis
      by (auto simp: processExistingPipeline_def Let_def)
  next
    case (Inr answer)
    obtain needs type where answer: "answer = (needs, type)" by (cases answer)
    let ?rm = "if needs then status_method MarkPending r
               else status_method (MarkDeployed (ro_Generation r)) r"
    let ?c1 = "Call_ResourceNeedsUpdating new existing"
    let ?c2 = "Call_GetUserStrategy (obj_Namespace new)"
    let ?w3 = "snd (getStrategy r w)\<lparr>calls := calls w @ [?c2, ?c1]\<rparr>"
    have v3: "strategy_valid ?rm ?w3"
      using valid_observed [OF valid] by (simp add: strategy_valid_def)
    obtain sel r4 w4 where
      sel: "(if observed_strategy r w = UpgradeStrategyNoOp
             then select_strategy env user type new (observed_strategy r w) ?rm ?w3
             else (Inr (observed_strategy r w), ?rm, ?w3)) = (sel, r4, w4)"
      by (metis prod_cases3)
    have v4: "strategy_valid r4 w4"
      using sel v3 by (auto split: if_splits dest: valid_select_strategy)
    show ?thesis
    proof (cases sel)
      case (Inl e)
      with run user Inr answer sel v4 show ?thesis
        by (auto simp: processExistingPipeline_def Let_def split: if_splits)
    next
      case chosen: (Inr s)
      obtain ref w5 where ref: "refresh_existing env s existing new w4 = (ref, w5)"
        by (cases "refresh_existing env s existing new w4")
      have v5: "strategy_valid r4 w5"
        using valid_refresh_existing [OF ref] v4 by simp
      show ?thesis
      proof (cases ref)
        case (Inl e)
        with run user Inr answer sel chosen ref v5 show ?thesis
          by (auto simp: processExistingPipeline_def Let_def split: if_splits)
      next
        case objs: (Inr pair)
        obtain e' n' where pair: "pair = (e', n')" by (cases pair)
        obtain res r6 w6 where
          rs: "run_strategy env s needs type e' n' r4 w5 = (res, r6, w6)"
          by (metis prod_cases3)
        have v6: "strategy_valid r6 w6"
          using valid_run_strategy [OF rs v5] .
        from run user Inr answer sel chosen ref objs pair rs
        have "r' = r6 \<and> (w' = w6 \<or> w' = record_call Call_garbageCollectChildren w6)"
          by (auto simp: processExistingPipeline_def Let_def split: if_splits option.splits)
        with v6 show ?thesis by auto
      qed
    qed
  qed
qed

lemma processExistingPipeline_in_progress:
  assumes run: "processExistingPipeline env r existing new w = (err, r', w')"
    and user: "usde_GetUserStrategy env (obj_Namespace new) = Inr user"
    and answer: "usde_ResourceNeedsUpdating env new existing = Inr (needs, type)"
    and obs: "observed_strategy r w = UpgradeStrategyPPND
              \<or> observed_strategy r w = UpgradeStrategyProgressive"
  shows "filter picks_strategy (calls w') = filter picks_strategy (calls w) \<and>
         (inProgressStrategies w' (rollout_key r) = Some (observed_strategy r w)
          \<or> inProgressStrategies w' (rollout_key r) = Some UpgradeStrategyNoOp \<and>
            (\<exists>rollout e n.
               observed_strategy r w = UpgradeStrategyPPND \<and>
                 processExistingPipelineWithPPND env rollout e n = Inr True
               \<or> observed_strategy r w = UpgradeStrategyProgressive \<and> needs \<and>
                 processResourceWithProgressive env rollout e = Inr True))"
proof -
  let ?X = "observed_strategy r w"
  let ?rm = "if needs then status_method MarkPending r
             else status_method (MarkDeployed (ro_Generation r)) r"
  let ?c1 = "Call_ResourceNeedsUpdating new existing"
  let ?c2 = "Call_GetUserStrategy (obj_Namespace new)"
  let ?w3 = "snd (getStrategy r w)\<lparr>calls := calls w @ [?c2, ?c1]\<rparr>"
  have set: "?X \<noteq> UpgradeStrategyNoOp" using obs by auto
  have t3: "inProgressStrategies ?w3 (rollout_key r) = Some ?X"
    using set by (simp add: getStrategy_table)
  have p3: "filter picks_strategy (calls ?w3) = filter picks_strategy (calls w)"
    by (simp add: picks_strategy_def)
  have key: "rollout_key ?rm = rollout_key r" by simp
  obtain ref w5 where ref: "refresh_existing env ?X existing new ?w3 = (ref, w5)"
    by (cases "refresh_existing env ?X existing new ?w3")
  note k5 = refresh_existing_keeps [OF ref]
  show ?thesis
  proof (cases ref)
    case (Inl e)
    with run user answer set ref have "w' = w5"
      by (auto simp: processExistingPipeline_def Let_def split: if_splits)
    with k5 t3 p3 show ?thesis by simp
  next
    case objs: (Inr pair)
    obtain e' n' where pair: "pair = (e', n')" by (cases pair)
    obtain res r6 w6 where
      rs: "run_strategy env ?X needs type e' n' ?rm w5 = (res, r6, w6)"
      by (metis prod_cases3)
    note eff = run_strategy_effect [OF rs obs]
    from run user answer set ref objs pair rs
    have w': "w' = w6 \<or> w' = record_call Call_garbageCollectChildren w6"
      by (auto simp: processExistingPipeline_def Let_def split: if_splits option.splits)
    then have same: "inProgressStrategies w' = inProgressStrategies w6"
      and picks: "filter picks_strategy (calls w') = filter picks_strategy (calls w6)"
      by (auto simp: picks_record_call picks_strategy_def)
    from eff k5 p3 picks have first: "filter picks_strategy (calls w') = filter picks_strategy (calls w)"
      by simp
    from eff have "inProgressStrategies w6 = inProgressStrategies w5
          \<or> inProgressStrategies w6
               = (inProgressStrategies w5)(rollout_key ?rm \<mapsto> UpgradeStrategyNoOp) \<and>
             (?X = UpgradeStrategyPPND \<and> processExistingPipelineWithPPND env ?rm e' n' = Inr True
              \<or> ?X = UpgradeStrategyProgressive \<and> needs \<and>
                processResourceWithProgressive env ?rm e' = Inr True)"
      by simp
    then show ?thesis
    proof
      assume "inProgressStrategies w6 = inProgressStrategies w5"
      with same k5 t3 first show ?thesis by simp
    next
      assume unset: "inProgressStrategies w6
               = (inProgressStrategies w5)(rollout_key ?rm \<mapsto> UpgradeStrategyNoOp) \<and>
             (?X = UpgradeStrategyPPND \<and> processExistingPipelineWithPPND env ?rm e' n' = Inr True
              \<or> ?X = UpgradeStrategyProgressive \<and> needs \<and>
                processResourceWithProgressive env ?rm e' = Inr True)"
      then have "inProgressStrategies w' (rollout_key r) = Some UpgradeStrategyNoOp"
        using same key by simp
      moreover from unset have "\<exists>rollout e n.
               ?X = UpgradeStrategyPPND \<and>
                 processExistingPipelineWithPPND env rollout e n = Inr True
               \<or> ?X = UpgradeStrategyProgressive \<and> needs \<and>
                 processResourceWithProgressive env rollout e = Inr True"
        by blast
      ultimately show ?thesis using first by blast
    qed
  qed
qed

text \<open>
  C1. Let a reconciliation of an existing child run \<open>processExistingPipeline\<close>. (a) When the
  in-memory table and the status field hold nothing but \<open>NoOp\<close>, \<open>PPND\<close> or \<open>Progressive\<close> for
  the rollout, the strategy observed is one of the three, and the same is true afterwards.
  (b) When the reconciliation gets as far as reading the strategy (the decision engine has
  answered) and observes \<open>PPND\<close> or \<open>Progressive\<close>, it makes no call of the decision logic
  (neither \<open>needPPND\<close> nor \<open>setStrategy\<close>), and the strategy that a later reconciliation of the
  same rollout observes is the same one, or \<open>NoOp\<close>; it is \<open>NoOp\<close> only when the step of the
  strategy in progress reported that it is done (for \<open>Progressive\<close>, with an update needed),
  which is when \<open>unsetStrategy\<close> is called.
\<close>

theorem strategy_exclusive:
  assumes "processExistingPipeline env r existing new w = (err, r', w')"
  shows "(strategy_valid r w \<longrightarrow>
            in_progress_value (observed_strategy r w) \<and> strategy_valid r' w' \<and>
            in_progress_value (observed_strategy r' w')) \<and>
         (\<forall>user needs type.
            usde_GetUserStrategy env (obj_Namespace new) = Inr user \<and>
            usde_ResourceNeedsUpdating env new existing = Inr (needs, type) \<and>
            (observed_strategy r w = UpgradeStrategyPPND
             \<or> observed_strategy r w = UpgradeStrategyProgressive) \<longrightarrow>
              filter picks_strategy (calls w') = filter picks_strategy (calls w) \<and>
              (\<forall>later. rollout_key later = rollout_key r \<longrightarrow>
                 observed_strategy later w' = observed_strategy r w
                 \<or> observed_strategy later w' = UpgradeStrategyNoOp \<and>
                   (\<exists>rollout e n.
                      observed_strategy r w = UpgradeStrategyPPND \<and>
                        processExistingPipelineWithPPND env rollout e n = Inr True
                      \<or> observed_strategy r w = UpgradeStrategyProgressive \<and> needs \<and>
                        processResourceWithProgressive env rollout e = Inr True)))"
proof (intro conjI impI allI)
  assume valid: "strategy_valid r w"
  from valid_observed [OF valid] show "in_progress_value (observed_strategy r w)" ..
  from valid_processExistingPipeline [OF assms valid] show v': "strategy_valid r' w'" .
  from valid_observed [OF v'] show "in_progress_value (observed_strategy r' w')" ..
next
  fix user needs type
  assume reached: "usde_GetUserStrategy env (obj_Namespace new) = Inr user \<and>
       usde_ResourceNeedsUpdating env new existing = Inr (needs, type) \<and>
       (observed_strategy r w = UpgradeStrategyPPND
        \<or> observed_strategy r w = UpgradeStrategyProgressive)"
  then have user: "usde_GetUserStrategy env (obj_Namespace new) = Inr user"
    and answer: "usde_ResourceNeedsUpdating env new existing = Inr (needs, type)"
    and obs: "observed_strategy r w = UpgradeStrategyPPND
              \<or> observed_strategy r w = UpgradeStrategyProgressive"
    by simp_all
  note inp = processExistingPipeline_in_progress [OF assms user answer obs]
  from inp show "filter picks_strategy (calls w') = filter picks_strategy (calls w)" ..
  fix later
  assume key: "rollout_key later = rollout_key r"
  from inp have "inProgressStrategies w' (rollout_key r) = Some (observed_strategy r w)
          \<or> inProgressStrategies w' (rollout_key r) = Some UpgradeStrategyNoOp \<and>
            (\<exists>rollout e n.
               observed_strategy r w = UpgradeStrategyPPND \<and>
                 processExistingPipelineWithPPND env rollout e n = Inr True
               \<or> observed_strategy r w = UpgradeStrategyProgressive \<and> needs \<and>
                 processResourceWithProgressive env rollout e = Inr True)" ..
  then show "observed_strategy later w' = observed_strategy r w
                 \<or> observed_strategy later w' = UpgradeStrategyNoOp \<and>
                   (\<exists>rollout e n.
                      observed_strategy r w = UpgradeStrategyPPND \<and>
                        processExistingPipelineWithPPND env rollout e n = Inr True
                      \<or> observed_strategy r w = UpgradeStrategyProgressive \<and> needs \<and>
                        processResourceWithProgressive env rollout e = Inr True)"
  proof
    assume "inProgressStrategies w' (rollout_key r) = Some (observed_strategy r w)"
    then have "observed_strategy later w' = observed_strategy r w"
      using observed_from_table [of w' later] key by simp
    then show ?thesis ..
  next
    assume unset: "inProgressStrategies w' (rollout_key r) = Some UpgradeStrategyNoOp \<and>
            (\<exists>rollout e n.
               observed_strategy r w = UpgradeStrategyPPND \<and>
                 processExistingPipelineWithPPND env rollout e n = Inr True
               \<or> observed_strategy r w = UpgradeStrategyProgressive \<and> needs \<and>
                 processResourceWithProgressive env rollout e = Inr True)"
    then have "observed_strategy later w' = UpgradeStrategyNoOp"
      using observed_from_table [of w' later] key by simp
    with unset show ?thesis by blast
  qed
qed

lemmas sample_strategy_defs = processExistingPipeline_def refresh_existing_def run_strategy_def
  getStrategy_def getRolloutStrategy_def unsetStrategy_def store_strategy_def
  setRolloutStrategy_def observed_strategy_def rollout_key_def status_method_def
  record_call_def merge_value picks_strategy_def
  sample_env_ppnd_done_def sample_env_def sample_rollout_def sample_world_ppnd_def
  sample_child_def

theorem strategy_exclusive_witness:
  "observed_strategy sample_rollout sample_world_ppnd = UpgradeStrategyPPND \<and>
   filter picks_strategy
     (calls (snd (snd (processExistingPipeline sample_env_ppnd_done sample_rollout
                         (sample_child ''uid-1'') (sample_child ''uid-1'')
                         sample_world_ppnd)))) = [] \<and>
   observed_strategy sample_rollout
     (snd (snd (processExistingPipeline sample_env_ppnd_done sample_rollout
                  (sample_child ''uid-1'') (sample_child ''uid-1'') sample_world_ppnd)))
     = UpgradeStrategyNoOp"
proof -
  obtain err r' w' where
    run: "processExistingPipeline sample_env_ppnd_done sample_rollout
            (sample_child ''uid-1'') (sample_child ''uid-1'') sample_world_ppnd = (err, r', w')"
    by (metis prod_cases3)
  have user: "usde_GetUserStrategy sample_env_ppnd_done (obj_Namespace (sample_child ''uid-1''))
                = Inr PPNDStrategyID"
    by (simp add: sample_env_ppnd_done_def sample_env_def)
  have answer: "usde_ResourceNeedsUpdating sample_env_ppnd_done (sample_child ''uid-1'')
                  (sample_child ''uid-1'') = Inr (False, UpgradeStrategyNoOp)"
    by (simp add: sample_env_ppnd_done_def sample_env_def)
  have obs: "observed_strategy sample_rollout sample_world_ppnd = UpgradeStrategyPPND"
    by (simp add: observed_strategy_def getStrategy_def rollout_key_def sample_rollout_def
        sample_world_ppnd_def)
  have before: "filter picks_strategy (calls sample_world_ppnd) = []"
    by (simp add: sample_world_ppnd_def)
  have after: "observed_strategy sample_rollout w' = UpgradeStrategyNoOp"
  proof -
    have "observed_strategy sample_rollout
            (snd (snd (processExistingPipeline sample_env_ppnd_done sample_rollout
                         (sample_child ''uid-1'') (sample_child ''uid-1'')
                         sample_world_ppnd))) = UpgradeStrategyNoOp"
      by (simp add: sample_strategy_defs Let_def)
    then show ?thesis by (simp only: run snd_conv)
  qed
  from strategy_exclusive [OF run] user answer obs
  have "filter picks_strategy (calls w') = filter picks_strategy (calls sample_world_ppnd)"
    by blast
  with before obs after show ?thesis by (simp add: run)
qed

end
